theory Spec2Isabelle
  imports Main "HOL-Library.Char_ord" "HOL-Library.List_Lexorder" "HOL-Library.Word"
begin

unbundle bit_operations_syntax


section \<open>Go library functions used by the generator\<close>

text \<open>
  A Go string is a sequence of bytes: it is modelled by \<open>string\<close> (\<open>char list\<close>), and
  the comparison \<open><\<close> on it is the bytewise lexicographic order of Go.
\<close>

subsection \<open>strconv.Itoa on non-negative numbers\<close>

definition digit :: "nat \<Rightarrow> char" where
  "digit d = char_of (48 + d)"

function Itoa :: "nat \<Rightarrow> string" where
  "Itoa n = (if n < 10 then [digit n] else Itoa (n div 10) @ [digit (n mod 10)])"
  by pat_completeness auto
termination
  by (relation "measure (\<lambda>n. n)") auto

declare Itoa.simps [simp del]

subsection \<open>go/token: keywords and identifiers\<close>

definition go_keywords :: "string list" where
  "go_keywords = [''break'', ''case'', ''chan'', ''const'', ''continue'', ''default'', ''defer'',
     ''else'', ''fallthrough'', ''for'', ''func'', ''go'', ''goto'', ''if'', ''import'',
     ''interface'', ''map'', ''package'', ''range'', ''return'', ''select'', ''struct'',
     ''switch'', ''type'', ''var'']"

definition IsKeyword :: "string \<Rightarrow> bool" where
  "IsKeyword v = (v \<in> set go_keywords)"

subsection \<open>go/types: the universe scope\<close>

text \<open>
  The names of \<open>types.Universe\<close> (Go 1.21 and later): the predeclared types, constants,
  \<open>nil\<close> and the built-in functions.
\<close>

definition Universe :: "string list" where
  "Universe = [''any'', ''bool'', ''byte'', ''comparable'', ''complex64'', ''complex128'',
     ''error'', ''float32'', ''float64'', ''int'', ''int8'', ''int16'', ''int32'', ''int64'',
     ''rune'', ''string'', ''uint'', ''uint8'', ''uint16'', ''uint32'', ''uint64'', ''uintptr'',
     ''true'', ''false'', ''iota'', ''nil'',
     ''append'', ''cap'', ''clear'', ''close'', ''complex'', ''copy'', ''delete'', ''imag'',
     ''len'', ''make'', ''max'', ''min'', ''new'', ''panic'', ''print'', ''println'', ''real'',
     ''recover'']"

definition isPredeclared :: "string \<Rightarrow> bool" where
  "isPredeclared name = (name \<in> set Universe)"

subsection \<open>unicode/utf8: decoding the first rune\<close>

definition RuneError :: int where
  "RuneError = 0xFFFD"

definition byte_in :: "char \<Rightarrow> int \<Rightarrow> int \<Rightarrow> bool" where
  "byte_in c lo hi = (lo \<le> of_char c \<and> of_char c \<le> hi)"

text \<open>
  \<open>utf8.DecodeRuneInString\<close>: the first rune and its width in bytes; \<open>(RuneError, 0)\<close> on
  the empty string and \<open>(RuneError, 1)\<close> on an invalid encoding.
\<close>

fun DecodeRuneInString :: "string \<Rightarrow> int \<times> nat" where
  "DecodeRuneInString [] = (RuneError, 0)"
| "DecodeRuneInString (c0 # cs) =
     (if of_char c0 < (0x80::int) then (of_char c0, 1)
      else if byte_in c0 0xC2 0xDF then
        (case cs of
           c1 # _ \<Rightarrow>
             if byte_in c1 0x80 0xBF
             then ((of_char c0 mod 32) * 64 + of_char c1 mod 64, 2)
             else (RuneError, 1)
         | _ \<Rightarrow> (RuneError, 1))
      else if byte_in c0 0xE0 0xEF then
        (case cs of
           c1 # c2 # _ \<Rightarrow>
             if byte_in c1 (if of_char c0 = (0xE0::int) then 0xA0 else 0x80)
                           (if of_char c0 = (0xED::int) then 0x9F else 0xBF)
                \<and> byte_in c2 0x80 0xBF
             then ((of_char c0 mod 16) * 4096 + (of_char c1 mod 64) * 64 + of_char c2 mod 64, 3)
             else (RuneError, 1)
         | _ \<Rightarrow> (RuneError, 1))
      else if byte_in c0 0xF0 0xF4 then
        (case cs of
           c1 # c2 # c3 # _ \<Rightarrow>
             if byte_in c1 (if of_char c0 = (0xF0::int) then 0x90 else 0x80)
                           (if of_char c0 = (0xF4::int) then 0x8F else 0xBF)
                \<and> byte_in c2 0x80 0xBF \<and> byte_in c3 0x80 0xBF
             then ((of_char c0 mod 8) * 262144 + (of_char c1 mod 64) * 4096
                     + (of_char c2 mod 64) * 64 + of_char c3 mod 64, 4)
             else (RuneError, 1)
         | _ \<Rightarrow> (RuneError, 1))
      else (RuneError, 1))"

section \<open>Panics and results\<close>

text \<open>
  Every failure of the generator is a Go panic. The model keeps one constructor per
  panic site, with the values the message is formatted from.
\<close>

datatype panic =
    CantDeclare string string   \<comment> \<open>"gtrace: can't declare identifier: %q: already defined at %q"\<close>
  | CantCapture string          \<comment> \<open>"can't capture variable %q"\<close>
  | CantListGoroot string       \<comment> \<open>"can't list GOROOT's src: %v"\<close>
  | InvalidString               \<comment> \<open>"invalid string"\<close>
  | UnknownResultType           \<comment> \<open>"unknown result type"\<close>
  | UnexpectedResultType        \<comment> \<open>"unexpected result type"\<close>
  | NilDereference              \<comment> \<open>runtime error: nil pointer dereference\<close>
  | IndexOutOfRange             \<comment> \<open>runtime error: index out of range\<close>

datatype 'a result = Ok 'a | Panic panic

section \<open>Identifier helpers\<close>

definition firstChar :: "string \<Rightarrow> string result" where
  "firstChar s =
     (case DecodeRuneInString s of
        (r, n) \<Rightarrow> if r = RuneError then Panic InvalidString else Ok (take n s))"

section \<open>The scope allocator\<close>

record decl =
  decl_where :: string

text \<open>
  A scope is the Go map \<open>vars\<close> from names to declarations, kept as an association list
  without duplicate keys (\<open>scope_set\<close> never adds a key twice).
\<close>

type_synonym scope = "(string \<times> decl) list"

text \<open>
  \<open>scope.set\<close>: \<open>loc\<close> is the \<open>file:line\<close> string that the source computes with
  \<open>runtime.Caller(2)\<close>, the place where \<open>declare\<close>, \<open>mustDeclare\<close> or \<open>capture\<close> was
  called.
\<close>

definition scope_set :: "string \<Rightarrow> string \<Rightarrow> scope \<Rightarrow> bool \<times> scope" where
  "scope_set loc v s =
     (if map_of s v \<noteq> None then (False, s)
      else (True, s @ [(v, \<lparr>decl_where = loc\<rparr>)]))"

definition scope_where :: "scope \<Rightarrow> string \<Rightarrow> string" where
  "scope_where s v = (case map_of s v of Some d \<Rightarrow> decl_where d | None \<Rightarrow> [])"

text \<open>The package being generated for (\<open>types.Package\<close>): path, name, package-level names.\<close>

record gopkg =
  pkg_Path :: string
  pkg_Name :: string
  pkg_Scope :: "string list"

definition Lookup :: "gopkg \<Rightarrow> string \<Rightarrow> bool" where
  "Lookup pkg v = (v \<in> set (pkg_Scope pkg))"

text \<open>
  The environment of a run: the path of the generator's own source file (what
  \<open>runtime.Caller\<close> reports) and the result of \<open>os.ReadDir\<close> on \<open>GOROOT/src\<close>, an error
  message or the entries with their \<open>IsDir\<close> flag.
\<close>

record env =
  srcfile :: string
  goroot_src :: "string + (string \<times> bool) list"

definition caller :: "env \<Rightarrow> nat \<Rightarrow> string" where
  "caller e line = srcfile e @ '':'' @ Itoa line"

text \<open>
  The writer. \<open>Output\<close> holds the bytes the sink has received, \<open>bw\<close> the bytes held by the
  \<open>bufio.Writer\<close>. The head of \<open>scope\<close> is the \<open>Back\<close> of the Go list.
\<close>

record Writer =
  Output :: string
  once :: bool
  bw :: string
  atEOL :: bool
  depth :: int
  scope :: "scope list"
  std :: "(string \<rightharpoonup> bool) option"

type_synonym 'a action = "Writer \<Rightarrow> 'a result \<times> Writer"

definition isGlobalScope :: "Writer \<Rightarrow> bool" where
  "isGlobalScope w = (length (scope w) = 1)"

text \<open>
  The specification calls the panic of a mandated name that is already taken
  \<open>HardCollision\<close>; the source raises it in \<open>mustDeclare\<close> and in \<open>capture\<close>.
\<close>

definition HardCollision :: "panic \<Rightarrow> bool" where
  "HardCollision p = (case p of CantDeclare _ _ \<Rightarrow> True | CantCapture _ \<Rightarrow> True | _ \<Rightarrow> False)"

definition Writer_mustDeclare :: "env \<Rightarrow> nat \<Rightarrow> string \<Rightarrow> unit action" where
  "Writer_mustDeclare e line name w =
     (case scope w of
        [] \<Rightarrow> (Panic NilDereference, w)
      | s # rest \<Rightarrow>
          (case scope_set (caller e line) name s of
             (True, s') \<Rightarrow> (Ok (), w\<lparr>scope := s' # rest\<rparr>)
           | (False, _) \<Rightarrow> (Panic (CantDeclare name (scope_where s name)), w)))"

text \<open>The candidate of round \<open>i\<close> of the loop of \<open>declare\<close>.\<close>

definition candidate :: "string \<Rightarrow> nat \<Rightarrow> string" where
  "candidate name i = (if i > 0 then name @ Itoa i else name)"

definition blocked :: "gopkg \<Rightarrow> bool \<Rightarrow> scope \<Rightarrow> string \<Rightarrow> bool" where
  "blocked pkg glob s v = (IsKeyword v \<or> (glob \<and> Lookup pkg v) \<or> map_of s v \<noteq> None)"

lemma Itoa_nonempty: "Itoa n \<noteq> []"
  by (subst Itoa.simps) simp

lemma of_char_digit: "a < 10 \<Longrightarrow> of_char (digit a) = 48 + a"
  unfolding digit_def by simp

lemma digit_inj: "a < 10 \<Longrightarrow> b < 10 \<Longrightarrow> digit a = digit b \<Longrightarrow> a = b"
proof -
  assume a: "a < 10" and b: "b < 10" and e: "digit a = digit b"
  from e have "(of_char (digit a) :: nat) = of_char (digit b)" by simp
  with a b show "a = b" by (simp only: of_char_digit add_left_cancel)
qed

lemma Itoa_inj: "Itoa n = Itoa m \<Longrightarrow> n = m"
proof (induction n arbitrary: m rule: Itoa.induct)
  case (1 n)
  show ?case
  proof (cases "n < 10")
    case n: True
    show ?thesis
    proof (cases "m < 10")
      case True
      with n "1.prems" show ?thesis
        by (simp add: Itoa.simps [of n] Itoa.simps [of m] digit_inj)
    next
      case False
      with n "1.prems" Itoa_nonempty [of "m div 10"] show ?thesis
        by (simp add: Itoa.simps [of n] Itoa.simps [of m])
    qed
  next
    case n: False
    show ?thesis
    proof (cases "m < 10")
      case True
      with n "1.prems" Itoa_nonempty [of "n div 10"] show ?thesis
        by (simp add: Itoa.simps [of n] Itoa.simps [of m])
    next
      case False
      with n "1.prems" have e: "Itoa (n div 10) = Itoa (m div 10)"
        and d: "digit (n mod 10) = digit (m mod 10)"
        by (simp_all add: Itoa.simps [of n] Itoa.simps [of m])
      from "1.IH" [OF n e] have "n div 10 = m div 10" .
      moreover from d have "n mod 10 = m mod 10"
        by (intro digit_inj) simp_all
      ultimately show ?thesis
        by (metis div_mult_mod_eq)
    qed
  qed
qed

lemma candidate_inj: "candidate name i = candidate name j \<Longrightarrow> i = j"
  using Itoa_nonempty by (auto simp: candidate_def dest: Itoa_inj split: if_splits)

lemma finite_blocked: "finite {v. blocked pkg glob s v}"
proof -
  have "{v. blocked pkg glob s v} \<subseteq> set go_keywords \<union> set (pkg_Scope pkg) \<union> fst ` set s"
    by (auto simp: blocked_def IsKeyword_def Lookup_def dest: map_of_SomeD intro: rev_image_eqI)
  then show ?thesis
    by (rule finite_subset) simp
qed

lemma finite_blocked_rounds: "finite {j. blocked pkg glob s (candidate name j)}"
proof -
  have "inj (candidate name)"
    by (rule injI) (rule candidate_inj)
  from finite_vimageI [OF finite_blocked this, of pkg glob s]
  show ?thesis by (simp add: vimage_def)
qed

text \<open>
  The loop of \<open>declare\<close>, from round \<open>i\<close>: the first candidate that is no keyword, is
  not visible at package level (tested in the global scope only) and is free in the
  scope. The counter is a Go \<open>int\<close>; it is a natural number here, the loop ending long
  before \<open>2^63\<close> rounds on any scope that fits in memory.
\<close>

function declare_loop :: "gopkg \<Rightarrow> bool \<Rightarrow> string \<Rightarrow> scope \<Rightarrow> string \<Rightarrow> nat \<Rightarrow> string \<times> scope" where
  "declare_loop pkg glob loc s name i =
     (if IsKeyword (candidate name i) then declare_loop pkg glob loc s name (i + 1)
      else if glob \<and> Lookup pkg (candidate name i) then declare_loop pkg glob loc s name (i + 1)
      else (case scope_set loc (candidate name i) s of
              (True, s') \<Rightarrow> (candidate name i, s')
            | (False, _) \<Rightarrow> declare_loop pkg glob loc s name (i + 1)))"
  by pat_completeness auto


lemma blocked_round_card:
  assumes "blocked pkg glob s (candidate name i)"
  shows "card {j. Suc i \<le> j \<and> blocked pkg glob s (candidate name j)}
           < card {j. i \<le> j \<and> blocked pkg glob s (candidate name j)}"
proof (rule psubset_card_mono)
  show "finite {j. i \<le> j \<and> blocked pkg glob s (candidate name j)}"
    using finite_blocked_rounds [of pkg glob s name] by simp
  show "{j. Suc i \<le> j \<and> blocked pkg glob s (candidate name j)}
          \<subset> {j. i \<le> j \<and> blocked pkg glob s (candidate name j)}"
  proof
    show "{j. Suc i \<le> j \<and> blocked pkg glob s (candidate name j)}
            \<subseteq> {j. i \<le> j \<and> blocked pkg glob s (candidate name j)}"
      by auto
    have "i \<in> {j. i \<le> j \<and> blocked pkg glob s (candidate name j)}"
      using assms by simp
    moreover have "i \<notin> {j. Suc i \<le> j \<and> blocked pkg glob s (candidate name j)}"
      by simp
    ultimately show "{j. Suc i \<le> j \<and> blocked pkg glob s (candidate name j)}
            \<noteq> {j. i \<le> j \<and> blocked pkg glob s (candidate name j)}"
      by blast
  qed
qed

termination declare_loop
proof (relation "measure (\<lambda>(pkg, glob, loc, s, name, i).
                   card {j. i \<le> j \<and> blocked pkg glob s (candidate name j)})")
  show "wf (measure (\<lambda>(pkg, glob, loc, s, name, i).
                   card {j. i \<le> j \<and> blocked pkg glob s (candidate name j)}))"
    by simp
next
  fix pkg glob loc s name i
  assume "IsKeyword (candidate name i)"
  then have "blocked pkg glob s (candidate name i)"
    by (simp add: blocked_def)
  then show "((pkg, glob, loc, s, name, i + 1), (pkg, glob, loc, s, name, i))
      \<in> measure (\<lambda>(pkg, glob, loc, s, name, i).
                   card {j. i \<le> j \<and> blocked pkg glob s (candidate name j)})"
    using blocked_round_card [of pkg glob s name i] by simp
next
  fix pkg glob loc s name i
  assume "glob \<and> Lookup pkg (candidate name i)"
  then have "blocked pkg glob s (candidate name i)"
    by (simp add: blocked_def)
  then show "((pkg, glob, loc, s, name, i + 1), (pkg, glob, loc, s, name, i))
      \<in> measure (\<lambda>(pkg, glob, loc, s, name, i).
                   card {j. i \<le> j \<and> blocked pkg glob s (candidate name j)})"
    using blocked_round_card [of pkg glob s name i] by simp
next
  fix pkg glob loc s name i x y
  assume "(x, y) = scope_set loc (candidate name i) s" and "x = False"
  then have "blocked pkg glob s (candidate name i)"
    by (auto simp: blocked_def scope_set_def split: if_splits)
  then show "((pkg, glob, loc, s, name, i + 1), (pkg, glob, loc, s, name, i))
      \<in> measure (\<lambda>(pkg, glob, loc, s, name, i).
                   card {j. i \<le> j \<and> blocked pkg glob s (candidate name j)})"
    using blocked_round_card [of pkg glob s name i] by simp
qed

declare declare_loop.simps [simp del]

text \<open>
  \<open>Writer.declare\<close>. A predeclared name is first cut to its first character; the scope
  searched is the innermost one.
\<close>

definition Writer_declare :: "env \<Rightarrow> gopkg \<Rightarrow> nat \<Rightarrow> string \<Rightarrow> string action" where
  "Writer_declare e pkg line name w =
     (case (if isPredeclared name then firstChar name else Ok name) of
        Panic p \<Rightarrow> (Panic p, w)
      | Ok name' \<Rightarrow>
          (case scope w of
             [] \<Rightarrow> (Panic NilDereference, w)
           | s # rest \<Rightarrow>
               (case declare_loop pkg (isGlobalScope w) (caller e line) s name' 0 of
                  (v, s') \<Rightarrow> (Ok v, w\<lparr>scope := s' # rest\<rparr>))))"

fun capture_loop :: "string \<Rightarrow> string list \<Rightarrow> scope \<Rightarrow> unit result \<times> scope" where
  "capture_loop loc [] s = (Ok (), s)"
| "capture_loop loc (v # vs) s =
     (case scope_set loc v s of
        (True, s') \<Rightarrow> capture_loop loc vs s'
      | (False, _) \<Rightarrow> (Panic (CantCapture v), s))"

definition Writer_capture :: "env \<Rightarrow> nat \<Rightarrow> string list \<Rightarrow> unit action" where
  "Writer_capture e line vars w =
     (case scope w of
        [] \<Rightarrow> (Panic NilDereference, w)
      | s # rest \<Rightarrow>
          (case capture_loop (caller e line) vars s of
             (r, s') \<Rightarrow> (r, w\<lparr>scope := s' # rest\<rparr>)))"


section \<open>The emitter\<close>

text \<open>
  \<open>bufio.Writer\<close> with the default buffer of 4096 bytes over a sink that accepts every
  write (the sink is taken as a plain \<open>io.Writer\<close>): a write that does not fit fills
  the buffer, hands it to the sink and goes on with the rest.
\<close>

definition defaultBufSize :: nat where
  "defaultBufSize = 4096"

definition Available :: "Writer \<Rightarrow> nat" where
  "Available w = defaultBufSize - length (bw w)"

definition Flush :: "Writer \<Rightarrow> Writer" where
  "Flush w = w\<lparr>Output := Output w @ bw w, bw := []\<rparr>"

definition WriteByte :: "char \<Rightarrow> Writer \<Rightarrow> Writer" where
  "WriteByte c w =
     (if Available w \<le> 0 then (Flush w)\<lparr>bw := [c]\<rparr> else w\<lparr>bw := bw w @ [c]\<rparr>)"

function WriteString :: "string \<Rightarrow> Writer \<Rightarrow> Writer" where
  "WriteString s w =
     (if length s > Available w
      then WriteString (drop (Available w) s) (Flush (w\<lparr>bw := bw w @ take (Available w) s\<rparr>))
      else w\<lparr>bw := bw w @ s\<rparr>)"
  by pat_completeness auto
termination
  by (relation "inv_image (less_than <*lex*> less_than) (\<lambda>(s, w). (length s, length (bw w)))")
     (auto simp: Available_def Flush_def defaultBufSize_def)

declare WriteString.simps [simp del]

text \<open>\<open>Writer.code\<close> and \<open>Writer.line\<close>.\<close>

definition Writer_code :: "string list \<Rightarrow> Writer \<Rightarrow> Writer" where
  "Writer_code args w =
     fold WriteString args
       (if atEOL w then ((WriteByte (CHR 0x09) ^^ nat (depth w)) w)\<lparr>atEOL := False\<rparr> else w)"

definition Writer_line :: "string list \<Rightarrow> Writer \<Rightarrow> Writer" where
  "Writer_line args w = (WriteByte (CHR 0x0A) (Writer_code args w))\<lparr>atEOL := True\<rparr>"

section \<open>Classification of import paths\<close>

text \<open>\<open>strings.Split\<close> on a one-byte separator; the result is never empty.\<close>

fun Split :: "char \<Rightarrow> string \<Rightarrow> string list" where
  "Split c [] = [[]]"
| "Split c (x # xs) =
     (if x = c then [] # Split c xs
      else (case Split c xs of y # ys \<Rightarrow> (x # y) # ys | [] \<Rightarrow> [[x]]))"

text \<open>\<open>filepath.Base\<close> with the separator \<open>/\<close>.\<close>

definition Base :: "string \<Rightarrow> string" where
  "Base path =
     (if path = [] then ''.''
      else (let stripped = rev (dropWhile (\<lambda>c. c = CHR ''/'') (rev path));
                last_elem = rev (takeWhile (\<lambda>c. c \<noteq> CHR ''/'') (rev stripped))
            in if last_elem = [] then ''/'' else last_elem))"

text \<open>The loop of \<open>ensureStdLibMapping\<close> over the directory entries.\<close>

fun std_entries :: "(string \<times> bool) list \<Rightarrow> (string \<rightharpoonup> bool) \<Rightarrow> (string \<rightharpoonup> bool)" where
  "std_entries [] m = m"
| "std_entries ((fname, isDir) # files) m =
     (if \<not> isDir then std_entries files m
      else if Base fname = ''cmd'' \<or> Base fname = ''internal'' then std_entries files m
      else std_entries files (m(Base fname \<mapsto> True)))"

definition Writer_ensureStdLibMapping :: "env \<Rightarrow> unit action" where
  "Writer_ensureStdLibMapping e w =
     (if std w \<noteq> None then (Ok (), w)
      else (case goroot_src e of
              Inl err \<Rightarrow> (Panic (CantListGoroot err), w\<lparr>std := Some Map.empty\<rparr>)
            | Inr files \<Rightarrow> (Ok (), w\<lparr>std := Some (std_entries files Map.empty)\<rparr>)))"

definition Writer_isStdLib :: "env \<Rightarrow> string \<Rightarrow> bool action" where
  "Writer_isStdLib e path w =
     (case Writer_ensureStdLibMapping e w of
        (Panic p, w') \<Rightarrow> (Panic p, w')
      | (Ok _, w') \<Rightarrow>
          (Ok (case std w' of
                 None \<Rightarrow> False
               | Some m \<Rightarrow> (case m (hd (Split (CHR ''/'') path)) of Some b \<Rightarrow> b | None \<Rightarrow> False)),
           w'))"

section \<open>Generator procedures\<close>

text \<open>
  The methods of the writer that read or assign its fields are the functions above. All
  other methods only call methods; they are written as trees of such calls, a node for
  each call and a continuation for what follows it, and \<open>run\<close> executes a tree on a
  writer. A panic ends the run with the writer as it is at that moment.
\<close>

datatype 'a gen =
    Return 'a
  | Throw panic
  | Line "string list" "'a gen"
  | Code "string list" "'a gen"
  | WriteNL "'a gen"                        \<comment> \<open>\<open>_ = w.bw.WriteByte('\n')\<close>\<close>
  | SetEOL "'a gen"                         \<comment> \<open>\<open>w.atEOL = true\<close>\<close>
  | Declare nat string "string \<Rightarrow> 'a gen"
  | MustDeclare nat string "'a gen"
  | Capture nat "string list" "'a gen"
  | IsStdLib string "bool \<Rightarrow> 'a gen"
  | PushScope "'a gen"                      \<comment> \<open>\<open>w.scope.PushBack(new(scope))\<close>\<close>
  | PopScope "'a gen"                       \<comment> \<open>\<open>w.scope.Remove(w.scope.Back())\<close>\<close>
  | IncDepth "'a gen"
  | DecDepth "'a gen"

primrec run :: "env \<Rightarrow> gopkg \<Rightarrow> 'a gen \<Rightarrow> 'a action" where
  "run e pkg (Return x) w = (Ok x, w)"
| "run e pkg (Throw p) w = (Panic p, w)"
| "run e pkg (Line args k) w = run e pkg k (Writer_line args w)"
| "run e pkg (Code args k) w = run e pkg k (Writer_code args w)"
| "run e pkg (WriteNL k) w = run e pkg k (WriteByte (CHR 0x0A) w)"
| "run e pkg (SetEOL k) w = run e pkg k (w\<lparr>atEOL := True\<rparr>)"
| "run e pkg (Declare l name k) w =
     (case Writer_declare e pkg l name w of
        (Ok v, w') \<Rightarrow> run e pkg (k v) w'
      | (Panic p, w') \<Rightarrow> (Panic p, w'))"
| "run e pkg (MustDeclare l name k) w =
     (case Writer_mustDeclare e l name w of
        (Ok _, w') \<Rightarrow> run e pkg k w'
      | (Panic p, w') \<Rightarrow> (Panic p, w'))"
| "run e pkg (Capture l vars k) w =
     (case Writer_capture e l vars w of
        (Ok _, w') \<Rightarrow> run e pkg k w'
      | (Panic p, w') \<Rightarrow> (Panic p, w'))"
| "run e pkg (IsStdLib path k) w =
     (case Writer_isStdLib e path w of
        (Ok b, w') \<Rightarrow> run e pkg (k b) w'
      | (Panic p, w') \<Rightarrow> (Panic p, w'))"
| "run e pkg (PushScope k) w = run e pkg k (w\<lparr>scope := [] # scope w\<rparr>)"
| "run e pkg (PopScope k) w =
     (case scope w of
        [] \<Rightarrow> (Panic NilDereference, w)
      | _ # rest \<Rightarrow> run e pkg k (w\<lparr>scope := rest\<rparr>))"
| "run e pkg (IncDepth k) w = run e pkg k (w\<lparr>depth := depth w + 1\<rparr>)"
| "run e pkg (DecDepth k) w = run e pkg k (w\<lparr>depth := depth w - 1\<rparr>)"

text \<open>Sequencing: \<open>bind m f\<close> runs \<open>m\<close> and then \<open>f\<close> on its value.\<close>

primrec bind :: "'a gen \<Rightarrow> ('a \<Rightarrow> 'b gen) \<Rightarrow> 'b gen" where
  "bind (Return x) f = f x"
| "bind (Throw p) f = Throw p"
| "bind (Line args k) f = Line args (bind k f)"
| "bind (Code args k) f = Code args (bind k f)"
| "bind (WriteNL k) f = WriteNL (bind k f)"
| "bind (SetEOL k) f = SetEOL (bind k f)"
| "bind (Declare l name k) f = Declare l name (\<lambda>v. bind (k v) f)"
| "bind (MustDeclare l name k) f = MustDeclare l name (bind k f)"
| "bind (Capture l vars k) f = Capture l vars (bind k f)"
| "bind (IsStdLib path k) f = IsStdLib path (\<lambda>b. bind (k b) f)"
| "bind (PushScope k) f = PushScope (bind k f)"
| "bind (PopScope k) f = PopScope (bind k f)"
| "bind (IncDepth k) f = IncDepth (bind k f)"
| "bind (DecDepth k) f = DecDepth (bind k f)"

definition seq :: "unit gen list \<Rightarrow> unit gen" where
  "seq ms = foldr (\<lambda>m k. bind m (\<lambda>_. k)) ms (Return ())"

text \<open>A pure helper that may panic, used inside a procedure.\<close>

definition lift :: "'a result \<Rightarrow> 'a gen" where
  "lift r = (case r of Ok x \<Rightarrow> Return x | Panic p \<Rightarrow> Throw p)"

definition line :: "string list \<Rightarrow> unit gen" where
  "line args = Line args (Return ())"

definition code :: "string list \<Rightarrow> unit gen" where
  "code args = Code args (Return ())"

definition declare' :: "nat \<Rightarrow> string \<Rightarrow> string gen" where
  "declare' l name = Declare l name Return"

definition mustDeclare :: "nat \<Rightarrow> string \<Rightarrow> unit gen" where
  "mustDeclare l name = MustDeclare l name (Return ())"

definition capture :: "nat \<Rightarrow> string list \<Rightarrow> unit gen" where
  "capture l vars = Capture l vars (Return ())"

definition isStdLib :: "string \<Rightarrow> bool gen" where
  "isStdLib path = IsStdLib path Return"

definition newScope :: "'a gen \<Rightarrow> 'a gen" where
  "newScope fn = PushScope (bind fn (\<lambda>x. PopScope (Return x)))"

definition block :: "'a gen \<Rightarrow> 'a gen" where
  "block fn = IncDepth (bind (newScope fn) (\<lambda>x. DecDepth (Return x)))"

section \<open>Types and the model of a package\<close>

text \<open>
  What the generator asks of a \<open>types.Type\<close>: whether it is a pointer, a named type (with
  the package and name of its object, the package being absent for a type of the
  universe, and its underlying type), a struct with its fields, or any other type, which
  is given by the function that prints it under a package qualifier. A field carries its
  name, its type and the answer of \<open>Exported()\<close>.
\<close>

datatype gotype =
    Pointer gotype
  | Named "gopkg option" string gotype
  | Struct "var list"
  | Other "(gopkg \<Rightarrow> string) \<Rightarrow> string"
and var = Var (var_Name: string) (var_Type: gotype) (var_Exported: bool)

text \<open>
  \<open>types.TypeString\<close>: a named type is printed with the qualifier of its package and a
  dot when the qualifier is not empty, a struct with its fields (tags and embedding are
  not modelled).
\<close>

fun TypeString :: "gotype \<Rightarrow> (gopkg \<Rightarrow> string) \<Rightarrow> string"
  and FieldsString :: "var list \<Rightarrow> (gopkg \<Rightarrow> string) \<Rightarrow> string" where
  "TypeString (Pointer t) qf = ''*'' @ TypeString t qf"
| "TypeString (Named pkg name u) qf =
     (case pkg of
        None \<Rightarrow> name
      | Some p \<Rightarrow> if qf p \<noteq> [] then qf p @ ''.'' @ name else name)"
| "TypeString (Struct flds) qf = ''struct{'' @ FieldsString flds qf @ ''}''"
| "TypeString (Other print) qf = print qf"
| "FieldsString [] qf = []"
| "FieldsString (Var name t ex # flds) qf =
     name @ '' '' @ TypeString t qf @ (if flds = [] then [] else ''; '' @ FieldsString flds qf)"

text \<open>\<open>t.String()\<close>: the qualifier is the full path of the package.\<close>

definition String :: "gotype \<Rightarrow> string" where
  "String t = TypeString t pkg_Path"

text \<open>\<open>Writer.typeString\<close>: types of the package generated for are not qualified.\<close>

definition typeString :: "gopkg \<Rightarrow> gotype \<Rightarrow> string" where
  "typeString wpkg t =
     TypeString t (\<lambda>pkg. if pkg_Path pkg = pkg_Path wpkg then [] else pkg_Name pkg)"

text \<open>
  \<open>unwrapStruct\<close>: the named type, when the type is one, and its fields, when its
  underlying type is a struct.
\<close>

fun unwrapStruct :: "gotype \<Rightarrow> gotype option \<times> var list option" where
  "unwrapStruct (Named pkg name (Struct flds)) = (Some (Named pkg name (Struct flds)), Some flds)"
| "unwrapStruct (Named pkg name u) = (Some (Named pkg name u), None)"
| "unwrapStruct t = (None, None)"

text \<open>
  Modelled from the spec: the types \<open>Package\<close>, \<open>Trace\<close>, \<open>Hook\<close>, \<open>Func\<close> and \<open>Param\<close> and
  the methods \<open>HasResult\<close> and \<open>isFuncResult\<close> are declared outside the files at hand. A
  \<open>Func\<close> has its parameters and a result slot of zero or one result; a result is a
  further \<open>Func\<close> or a reference to a \<open>Trace\<close>, of which the generator reads the name
  only. The slot is a Go slice of interface values: \<open>ROther\<close> stands for a value of
  any other dynamic type, which the generator's type switches reject.
\<close>

record Param =
  Param_Name :: string
  Param_Type :: gotype

datatype func = Func (Params: "Param list") (Result: "funcResult list")
and funcResult = RFunc func | RTrace string | ROther

record Hook =
  Hook_Name :: string
  Hook_Func :: func

record Trace =
  Trace_Name :: string
  Nested :: bool
  Hooks :: "Hook list"

record Package =
  Package_pkg :: gopkg
  BuildConstraints :: "string list"
  Traces :: "Trace list"

definition HasResult :: "func \<Rightarrow> bool" where
  "HasResult f = (length (Result f) > 0)"

definition isFuncResult :: "func \<Rightarrow> bool" where
  "isFuncResult f = (case Result f of RFunc _ # _ \<Rightarrow> True | _ \<Rightarrow> False)"

section \<open>Names\<close>

text \<open>
  \<open>unicode.ToUpper\<close>, \<open>unicode.ToLower\<close>, \<open>unicode.IsLetter\<close> and \<open>unicode.IsNumber\<close>
  are modelled on ASCII. The Unicode tables are not part of the model: a name that starts
  with a rune outside ASCII keeps its first rune as it is, and in \<open>ident\<close> a byte outside
  ASCII counts as part of a letter.
\<close>

definition ToUpper :: "char \<Rightarrow> char" where
  "ToUpper c = (if CHR ''a'' \<le> c \<and> c \<le> CHR ''z'' then char_of (of_char c - (32::nat)) else c)"

definition ToLower :: "char \<Rightarrow> char" where
  "ToLower c = (if CHR ''A'' \<le> c \<and> c \<le> CHR ''Z'' then char_of (of_char c + (32::nat)) else c)"

definition IsNumber :: "char \<Rightarrow> bool" where
  "IsNumber c = (CHR ''0'' \<le> c \<and> c \<le> CHR ''9'')"

definition IsLetter :: "char \<Rightarrow> bool" where
  "IsLetter c = ((CHR ''a'' \<le> c \<and> c \<le> CHR ''z'') \<or> (CHR ''A'' \<le> c \<and> c \<le> CHR ''Z'')
                  \<or> (128::nat) \<le> of_char c)"

definition exported :: "string \<Rightarrow> string result" where
  "exported s =
     (case DecodeRuneInString s of
        (r, n) \<Rightarrow>
          if r = RuneError then Panic InvalidString
          else Ok (if n = 1 then map ToUpper (take 1 s) @ drop 1 s else s))"

definition unexported :: "string \<Rightarrow> string result" where
  "unexported s =
     (case DecodeRuneInString s of
        (r, n) \<Rightarrow>
          if r = RuneError then Panic InvalidString
          else Ok (if n = 1 then map ToLower (take 1 s) @ drop 1 s else s))"

text \<open>\<open>token.IsIdentifier\<close>.\<close>

definition IsIdentifier :: "string \<Rightarrow> bool" where
  "IsIdentifier s =
     (s \<noteq> [] \<and> \<not> IsKeyword s
      \<and> (\<forall>i < length s. IsLetter (s ! i) \<or> s ! i = CHR ''_'' \<or> (i > 0 \<and> IsNumber (s ! i))))"

text \<open>The first loop of \<open>ident\<close>: leading numbers are cut off.\<close>

fun strip_numbers :: "string \<Rightarrow> string result" where
  "strip_numbers [] = Ok []"
| "strip_numbers (c # cs) =
     (if fst (DecodeRuneInString (c # cs)) = RuneError then Panic InvalidString
      else if \<not> IsNumber c then Ok (c # cs)
      else strip_numbers cs)"

definition ident :: "string \<Rightarrow> string result" where
  "ident s =
     (case strip_numbers s of
        Panic p \<Rightarrow> Panic p
      | Ok s1 \<Rightarrow>
          (let s2 = filter (\<lambda>c. c = CHR ''_'' \<or> IsLetter c \<or> IsNumber c) s1
           in Ok (if \<not> IsIdentifier s2 then ''_'' @ s2 else s2)))"

text \<open>
  Modelled from the spec: \<open>rsplit\<close> is defined outside the files at hand; it is taken to
  cut a string at the last occurrence of a byte, and to return the string and the empty
  string when the byte does not occur, as its use in \<open>typeBasename\<close> expects.
\<close>

definition rsplit :: "string \<Rightarrow> char \<Rightarrow> string \<times> string" where
  "rsplit s c =
     (if c \<notin> set s then (s, [])
      else (rev (tl (dropWhile (\<lambda>x. x \<noteq> c) (rev s))), rev (takeWhile (\<lambda>x. x \<noteq> c) (rev s))))"

definition typeBasename :: "gotype \<Rightarrow> string" where
  "typeBasename t =
     (case rsplit (String t) (CHR ''.'') of (lo, name) \<Rightarrow> if name = [] then lo else name)"

definition bind_result :: "'a result \<Rightarrow> ('a \<Rightarrow> 'b result) \<Rightarrow> 'b result" where
  "bind_result r f = (case r of Ok x \<Rightarrow> f x | Panic p \<Rightarrow> Panic p)"

definition nameParam :: "Param \<Rightarrow> string result" where
  "nameParam p =
     (if Param_Name p = []
      then bind_result (ident (typeBasename (Param_Type p)))
             (\<lambda>i. bind_result (firstChar i) unexported)
      else unexported (Param_Name p))"

text \<open>\<open>tempName\<close> of two names, as \<open>hookShortcut\<close> calls it.\<close>

definition tempName :: "string \<Rightarrow> string \<Rightarrow> string result" where
  "tempName a b =
     bind_result (unexported a) (\<lambda>a'. bind_result (exported b) (\<lambda>b'. Ok (a' @ b')))"

fun haveNames :: "Param list \<Rightarrow> bool result" where
  "haveNames [] = Ok False"
| "haveNames (p # params) =
     bind_result (nameParam p)
       (\<lambda>name. if length name > 1 \<and> \<not> isPredeclared name then Ok True else haveNames params)"

section \<open>Flattening of struct parameters\<close>

fun flattenStruct :: "Param list \<Rightarrow> var list \<Rightarrow> Param list" where
  "flattenStruct dst [] = dst"
| "flattenStruct dst (f # flds) =
     (if \<not> var_Exported f then flattenStruct dst flds
      else flattenStruct
             (dst @ [\<lparr>Param_Name = (if var_Name f = typeBasename (var_Type f) then []
                                     else var_Name f),
                      Param_Type = var_Type f\<rparr>])
             flds)"

fun flattenParams_from :: "Param list \<Rightarrow> Param list \<Rightarrow> Param list" where
  "flattenParams_from dst [] = dst"
| "flattenParams_from dst (p # params) =
     (case snd (unwrapStruct (Param_Type p)) of
        Some s \<Rightarrow> flattenParams_from (flattenStruct dst s) params
      | None \<Rightarrow> flattenParams_from (dst @ [p]) params)"

definition flattenParams :: "Param list \<Rightarrow> Param list" where
  "flattenParams params = flattenParams_from [] params"

section \<open>Collecting the imports\<close>

record dep =
  pkgPath :: string
  pkgName :: string
  typName :: string

fun typeImports :: "gopkg \<Rightarrow> dep list \<Rightarrow> gotype \<Rightarrow> dep list" where
  "typeImports wpkg dst (Pointer t) = typeImports wpkg dst t"
| "typeImports wpkg dst (Named pkg name u) =
     (case pkg of
        Some p \<Rightarrow>
          if pkg_Path p \<noteq> pkg_Path wpkg
          then dst @ [\<lparr>pkgPath = pkg_Path p, pkgName = pkg_Name p, typName = name\<rparr>]
          else dst
      | None \<Rightarrow> dst)"
| "typeImports wpkg dst t = dst"

fun fieldImports :: "gopkg \<Rightarrow> dep list \<Rightarrow> var list \<Rightarrow> dep list" where
  "fieldImports wpkg dst [] = dst"
| "fieldImports wpkg dst (v # flds) =
     fieldImports wpkg (if var_Exported v then typeImports wpkg dst (var_Type v) else dst) flds"

fun paramImports :: "gopkg \<Rightarrow> dep list \<Rightarrow> Param list \<Rightarrow> dep list" where
  "paramImports wpkg dst [] = dst"
| "paramImports wpkg dst (p # params) =
     paramImports wpkg
       (case snd (unwrapStruct (Param_Type p)) of
          Some s \<Rightarrow> fieldImports wpkg (typeImports wpkg dst (Param_Type p)) s
        | None \<Rightarrow> typeImports wpkg dst (Param_Type p))
       params"

fun funcImports :: "gopkg \<Rightarrow> dep list \<Rightarrow> func \<Rightarrow> dep list"
  and resultImports :: "gopkg \<Rightarrow> dep list \<Rightarrow> funcResult list \<Rightarrow> dep list" where
  "funcImports wpkg dst (Func params results) =
     resultImports wpkg (paramImports wpkg dst params) results"
| "resultImports wpkg dst [] = dst"
| "resultImports wpkg dst (RFunc fn # results) =
     resultImports wpkg (funcImports wpkg dst fn) results"
| "resultImports wpkg dst (x # results) = resultImports wpkg dst results"

definition traceImports :: "gopkg \<Rightarrow> dep list \<Rightarrow> Trace \<Rightarrow> dep list" where
  "traceImports wpkg dst t = fold (\<lambda>h dst. funcImports wpkg dst (Hook_Func h)) (Hooks t) dst"

text \<open>
  The first loop of \<open>importDeps\<close>: an entry whose path was seen is replaced by the last
  entry and the slice is cut by one.
\<close>

function dedup :: "nat \<Rightarrow> string set \<Rightarrow> dep list \<Rightarrow> dep list" where
  "dedup i seen deps =
     (if i < length deps
      then (if pkgPath (deps ! i) \<in> seen
            then dedup i seen (butlast (deps[i := last deps]))
            else dedup (i + 1) (insert (pkgPath (deps ! i)) seen) deps)
      else deps)"
  by pat_completeness auto
termination
  by (relation "measure (\<lambda>(i, seen, deps). length deps - i)") auto

declare dedup.simps [simp del]


section \<open>The procedures of the code synthesizer\<close>

text \<open>
  The field \<open>w.pkg\<close> is assigned once, at the start of \<open>Write\<close>, and only read after
  that: the procedures take it as the argument \<open>wpkg\<close>. A call of \<open>declare\<close>,
  \<open>mustDeclare\<close> or \<open>capture\<close> carries the line of the source it stands on, which is
  what \<open>scope.set\<close> records.
\<close>

definition forM :: "'a list \<Rightarrow> ('a \<Rightarrow> unit gen) \<Rightarrow> unit gen" where
  "forM xs f = seq (map f xs)"

definition forI :: "'a list \<Rightarrow> (nat \<Rightarrow> 'a \<Rightarrow> unit gen) \<Rightarrow> unit gen" where
  "forI xs f = seq (map (\<lambda>(i, x). f i x) (enumerate 0 xs))"

fun mapM :: "('a \<Rightarrow> 'b gen) \<Rightarrow> 'a list \<Rightarrow> 'b list gen" where
  "mapM f [] = Return []"
| "mapM f (x # xs) = bind (f x) (\<lambda>y. bind (mapM f xs) (\<lambda>ys. Return (y # ys)))"

definition skip :: "unit gen" where
  "skip = Return ()"

type_synonym flags = "8 word"

definition has :: "flags \<Rightarrow> flags \<Rightarrow> bool" where
  "has f x = (f AND x \<noteq> 0)"

definition zeroFlags :: flags where
  "zeroFlags = 0"

definition docs :: flags where
  "docs = 1"

definition call :: "string list \<Rightarrow> unit gen" where
  "call args =
     seq [code [''(''],
          forI args (\<lambda>i name. seq [if i > 0 then code ['', ''] else skip, code [name]]),
          line ['')'']]"

definition isZero :: "Trace \<Rightarrow> unit gen" where
  "isZero trace =
     newScope (bind (declare' 295 ''t'') (\<lambda>t. seq [
       line [''// isZero checks whether '', t, '' is empty''],
       line [''func ('', t, '' '', Trace_Name trace, '') isZero() bool {''],
       block (seq [
         forM (Hooks trace) (\<lambda>hook. seq [
           line [''if '', t, ''.'', Hook_Name hook, '' != nil {''],
           block (line [''return false'']),
           line [''}'']]),
         line [''return true'']]),
       line [''}'']]))"

definition funcParam :: "gopkg \<Rightarrow> Param \<Rightarrow> string gen" where
  "funcParam wpkg p =
     bind (lift (nameParam p)) (\<lambda>n.
     bind (declare' 760 n) (\<lambda>name.
     bind (code [name, '' '']) (\<lambda>_.
     bind (code [typeString wpkg (Param_Type p)]) (\<lambda>_.
     Return name))))"

text \<open>The loop over the parameters in \<open>funcParams\<close> and in \<open>hook\<close>.\<close>

fun funcParam_loop :: "gopkg \<Rightarrow> nat \<Rightarrow> Param list \<Rightarrow> string list gen" where
  "funcParam_loop wpkg i [] = Return []"
| "funcParam_loop wpkg i (p # params) =
     bind (if i > 0 then code ['', ''] else skip) (\<lambda>_.
     bind (funcParam wpkg p) (\<lambda>name.
     bind (funcParam_loop wpkg (i + 1) params) (\<lambda>names.
     Return (name # names))))"

definition funcParams :: "gopkg \<Rightarrow> Param list \<Rightarrow> string list gen" where
  "funcParams wpkg params =
     bind (code [''('']) (\<lambda>_.
     bind (funcParam_loop wpkg 0 params) (\<lambda>vars.
     bind (code ['')'']) (\<lambda>_.
     Return vars)))"

definition funcParamSign :: "gopkg \<Rightarrow> Param \<Rightarrow> unit gen" where
  "funcParamSign wpkg p =
     bind (lift (nameParam p)) (\<lambda>name. seq [
       code [if length name = 1 \<or> isPredeclared name then ''_'' else name, '' ''],
       code [typeString wpkg (Param_Type p)]])"

fun funcResultsFlags :: "gopkg \<Rightarrow> func \<Rightarrow> flags \<Rightarrow> unit gen"
  and funcResults_loop :: "gopkg \<Rightarrow> funcResult list \<Rightarrow> flags \<Rightarrow> unit gen"
  and funcSignatureFlags :: "gopkg \<Rightarrow> func \<Rightarrow> flags \<Rightarrow> unit gen" where
  "funcResultsFlags wpkg (Func params results) fl = funcResults_loop wpkg results fl"
| "funcResults_loop wpkg [] fl = skip"
| "funcResults_loop wpkg (RFunc x # rs) fl =
     seq [funcSignatureFlags wpkg x fl, funcResults_loop wpkg rs fl]"
| "funcResults_loop wpkg (RTrace x # rs) fl =
     seq [code [x, '' ''], funcResults_loop wpkg rs fl]"
| "funcResults_loop wpkg (ROther # rs) fl = Throw UnexpectedResultType"
| "funcSignatureFlags wpkg (Func params results) fl =
     bind (lift (haveNames params)) (\<lambda>haveNames. seq [
       code [''func(''],
       forI params (\<lambda>i p. seq [
         if i > 0 then code ['', ''] else skip,
         if has fl docs \<and> haveNames then funcParamSign wpkg p
         else code [typeString wpkg (Param_Type p)]]),
       code ['')''],
       if HasResult (Func params results)
       then seq [if isFuncResult (Func params results) then code ['' ''] else skip,
                 funcResults_loop wpkg results fl]
       else skip])"

definition funcResults :: "gopkg \<Rightarrow> func \<Rightarrow> unit gen" where
  "funcResults wpkg fn = funcResultsFlags wpkg fn 0"

definition funcSignature :: "gopkg \<Rightarrow> func \<Rightarrow> unit gen" where
  "funcSignature wpkg fn = funcSignatureFlags wpkg fn 0"

fun shortcutFuncResultsFlags :: "gopkg \<Rightarrow> func \<Rightarrow> flags \<Rightarrow> unit gen"
  and shortcutFuncResults_loop :: "gopkg \<Rightarrow> funcResult list \<Rightarrow> flags \<Rightarrow> unit gen"
  and shortcutFuncSignFlags :: "gopkg \<Rightarrow> func \<Rightarrow> flags \<Rightarrow> unit gen" where
  "shortcutFuncResultsFlags wpkg (Func params results) fl =
     shortcutFuncResults_loop wpkg results fl"
| "shortcutFuncResults_loop wpkg [] fl = skip"
| "shortcutFuncResults_loop wpkg (RFunc x # rs) fl =
     seq [shortcutFuncSignFlags wpkg x fl, shortcutFuncResults_loop wpkg rs fl]"
| "shortcutFuncResults_loop wpkg (RTrace x # rs) fl =
     seq [code [x, '' ''], shortcutFuncResults_loop wpkg rs fl]"
| "shortcutFuncResults_loop wpkg (ROther # rs) fl = Throw UnexpectedResultType"
| "shortcutFuncSignFlags wpkg (Func params results) fl =
     bind (lift (haveNames (flattenParams params))) (\<lambda>haveNames. seq [
       code [''func(''],
       forI (flattenParams params) (\<lambda>i p. seq [
         if i > 0 then code ['', ''] else skip,
         if has fl docs \<and> haveNames then funcParamSign wpkg p
         else code [typeString wpkg (Param_Type p)]]),
       code ['')''],
       if HasResult (Func params results)
       then seq [if isFuncResult (Func params results) then code ['' ''] else skip,
                 shortcutFuncResults_loop wpkg results fl]
       else skip])"

definition shortcutFuncResults :: "gopkg \<Rightarrow> func \<Rightarrow> unit gen" where
  "shortcutFuncResults wpkg fn = shortcutFuncResultsFlags wpkg fn 0"

fun zeroReturn :: "gopkg \<Rightarrow> func \<Rightarrow> unit gen" where
  "zeroReturn wpkg (Func params []) = line [''return'']"
| "zeroReturn wpkg (Func params (RFunc x # rs)) =
     seq [code [''return ''],
          funcSignature wpkg x,
          line ['' {''],
          block (zeroReturn wpkg x),
          line [''}'']]"
| "zeroReturn wpkg (Func params (RTrace x # rs)) =
     seq [code [''return ''], line [x, ''{}'']]"
| "zeroReturn wpkg (Func params (ROther # rs)) =
     seq [code [''return ''], Throw UnexpectedResultType]"

text \<open>
  \<open>composeHookCall\<close>: the merged hook. The part up to the two calls is the same for
  every shape of result; it yields the names of the two result variables.
\<close>

definition composeHookCall_calls ::
    "gopkg \<Rightarrow> func \<Rightarrow> string \<Rightarrow> string \<Rightarrow> (string \<times> string) gen" where
  "composeHookCall_calls wpkg fn h1 h2 =
     bind (capture 362 [h1, h2]) (\<lambda>_.
     bind (code [''func'']) (\<lambda>_.
     bind (funcParams wpkg (Params fn)) (\<lambda>args.
     bind (if HasResult fn then code ['' ''] else skip) (\<lambda>_.
     bind (funcResults wpkg fn) (\<lambda>_.
     bind (line ['' {'']) (\<lambda>_.
     bind (line [''if options.panicCallback != nil {'']) (\<lambda>_.
     bind (block (seq [
             line [''defer func() {''],
             block (seq [
               line [''if e := recover(); e != nil {''],
               block (line [''options.panicCallback(e)'']),
               line [''}'']]),
             line [''}()'']])) (\<lambda>_.
     bind (line [''}'']) (\<lambda>_.
     bind (if HasResult fn
           then bind (declare' 389 ''r'') (\<lambda>r1.
                bind (declare' 390 ''r'') (\<lambda>r2.
                bind (code [''var '' @ r1 @ '', '' @ r2 @ '' '']) (\<lambda>_.
                bind (funcResults wpkg fn) (\<lambda>_.
                WriteNL (SetEOL (Return (r1, r2)))))))
           else Return ([], [])) (\<lambda>(r1, r2).
     bind (forI [h1, h2] (\<lambda>i h. seq [
             line [''if '' @ h @ '' != nil {''],
             block (seq [
               if HasResult fn then code [[r1, r2] ! i, '' = ''] else skip,
               code [h],
               call args]),
             line [''}'']])) (\<lambda>_.
     Return (r1, r2))))))))))))"

fun composeHookCall :: "gopkg \<Rightarrow> func \<Rightarrow> string \<Rightarrow> string \<Rightarrow> unit gen" where
  "composeHookCall wpkg (Func params results) h1 h2 =
     newScope (seq [
       capture 360 [h1, h2],
       block (
         bind (composeHookCall_calls wpkg (Func params results) h1 h2) (\<lambda>(r1, r2).
         case results of
           [] \<Rightarrow> skip
         | RFunc x # rs \<Rightarrow> seq [code [''return ''], composeHookCall wpkg x r1 r2]
         | RTrace x # rs \<Rightarrow> seq [code [''return ''], line [r1, ''.Compose('', r2, '')'']]
         | ROther # rs \<Rightarrow> seq [code [''return ''], Throw UnknownResultType])),
       line [''}'']])"

definition composeHook :: "gopkg \<Rightarrow> Hook \<Rightarrow> string \<Rightarrow> string \<Rightarrow> string \<Rightarrow> unit gen" where
  "composeHook wpkg hook t1 t2 dst =
     seq [line [''{''],
          block (
            bind (declare' 348 ''h1'') (\<lambda>h1.
            bind (declare' 349 ''h2'') (\<lambda>h2. seq [
              line [h1, '' := '', t1, ''.'', Hook_Name hook],
              line [h2, '' := '', t2, ''.'', Hook_Name hook],
              code [dst, '' = ''],
              composeHookCall wpkg (Hook_Func hook) h1 h2]))),
          line [''}'']]"

definition compose :: "gopkg \<Rightarrow> Trace \<Rightarrow> unit gen" where
  "compose wpkg trace =
     newScope (
       bind (declare' 314 ''t'') (\<lambda>t.
       bind (declare' 315 ''x'') (\<lambda>x.
       bind (declare' 316 ''ret'') (\<lambda>ret. seq [
         line [''// Compose returns a new '', Trace_Name trace,
               '' which has functional fields composed both from '', t, '' and '', x, ''.''],
         code [''func ('', t, '' *'', Trace_Name trace, '') Compose('', x, '' *'',
               Trace_Name trace, '', opts ...'' @ Trace_Name trace @ ''ComposeOption) ''],
         line [''*'', Trace_Name trace, '' {''],
         block (seq [
           line [''var '', ret, '' '', Trace_Name trace, ''''],
           if length (Hooks trace) > 0
           then bind (lift (unexported (Trace_Name trace))) (\<lambda>u. seq [
                  line [''options := '', u, ''ComposeOptions{}''],
                  line [''for _, opt := range opts {''],
                  block (seq [
                    line [''if opt != nil {''],
                    block (line [''opt(&options)'']),
                    line [''}'']]),
                  line [''}'']])
           else skip,
           forM (Hooks trace) (\<lambda>hook. composeHook wpkg hook t x (ret @ ''.'' @ Hook_Name hook)),
           line [''return &'', ret]]),
         line [''}'']]))))"

definition options :: "Trace \<Rightarrow> unit gen" where
  "options trace =
     seq [
       newScope (bind (lift (unexported (Trace_Name trace))) (\<lambda>u. seq [
         line [''// '' @ u @ ''ComposeOptions is a holder of options''],
         line [''type '' @ u @ ''ComposeOptions struct {''],
         block (line [''panicCallback func(e interface{})'']),
         line [''}''],
         WriteNL skip])),
       newScope (seq [
         line [''// '' @ Trace_Name trace @ ''Option specified '' @ Trace_Name trace
               @ '' compose option''],
         bind (lift (unexported (Trace_Name trace))) (\<lambda>u.
           line [''type '' @ Trace_Name trace @ ''ComposeOption func(o *'' @ u
                 @ ''ComposeOptions)'']),
         WriteNL skip]),
       newScope (seq [
         line [''// With'' @ Trace_Name trace @ ''PanicCallback specified behavior on panic''],
         line [''func With'' @ Trace_Name trace @ ''PanicCallback(cb func(e interface{})) ''
               @ Trace_Name trace @ ''ComposeOption {''],
         block (bind (lift (unexported (Trace_Name trace))) (\<lambda>u. seq [
           line [''return func(o *'' @ u @ ''ComposeOptions) {''],
           block (line [''o.panicCallback = cb'']),
           line [''}'']])),
         line [''}''],
         WriteNL skip])]"

fun hookFuncCall :: "gopkg \<Rightarrow> func \<Rightarrow> string \<Rightarrow> string list \<Rightarrow> unit gen" where
  "hookFuncCall wpkg (Func params results) name args =
     bind (if HasResult (Func params results)
           then bind (declare' 492 ''res'') (\<lambda>res.
                bind (code [res, '' := '']) (\<lambda>_. Return res))
           else Return []) (\<lambda>res.
     bind (code [name]) (\<lambda>_.
     bind (call args) (\<lambda>_.
     case results of
       [] \<Rightarrow> skip
     | RFunc r # rs \<Rightarrow> seq [
         line [''if '', res, '' == nil {''],
         block (zeroReturn wpkg (Func params results)),
         line [''}''],
         if HasResult r
         then newScope (
                bind (code [''return func'']) (\<lambda>_.
                bind (funcParams wpkg (Params r)) (\<lambda>args'. seq [
                  code ['' ''],
                  funcResults wpkg r,
                  line ['' {''],
                  block (hookFuncCall wpkg r res args'),
                  line [''}'']])))
         else line [''return '', res]]
     | _ # rs \<Rightarrow> line [''return '', res])))"

definition hook :: "gopkg \<Rightarrow> Trace \<Rightarrow> Hook \<Rightarrow> unit gen" where
  "hook wpkg trace h =
     newScope (
       bind (declare' 456 ''t'') (\<lambda>t.
       bind (declare' 457 ''fn'') (\<lambda>fn.
       bind (lift (unexported (Hook_Name h))) (\<lambda>u.
       bind (code [''func ('', t, '' *'', Trace_Name trace, '') '', u]) (\<lambda>_.
       bind (code [''('']) (\<lambda>_.
       bind (funcParam_loop wpkg 0 (Params (Hook_Func h))) (\<lambda>args. seq [
         code ['')''],
         if HasResult (Hook_Func h) then code ['' ''] else skip,
         funcResultsFlags wpkg (Hook_Func h) docs,
         line ['' {''],
         block (seq [
           line [fn, '' := '', t, ''.'', Hook_Name h],
           line [''if '', fn, '' == nil {''],
           block (zeroReturn wpkg (Hook_Func h)),
           line [''}''],
           hookFuncCall wpkg (Hook_Func h) fn args]),
         line [''}'']])))))))"

definition declareParams :: "Param list \<Rightarrow> string list gen" where
  "declareParams src = mapM (\<lambda>p. bind (lift (nameParam p)) (declare' 541)) src"

text \<open>
  \<open>constructStruct\<close>: the loop over the fields takes one variable for each exported
  field; \<open>vars[0]\<close> on an empty slice is a run-time panic.
\<close>

fun constructStruct_loop :: "string \<Rightarrow> var list \<Rightarrow> string list \<Rightarrow> string list gen" where
  "constructStruct_loop p [] vars = Return vars"
| "constructStruct_loop p (v # flds) vars =
     (if \<not> var_Exported v then constructStruct_loop p flds vars
      else (case vars of
              [] \<Rightarrow> Throw IndexOutOfRange
            | name # vars' \<Rightarrow>
                bind (line [p, ''.'', var_Name v, '' = '', name]) (\<lambda>_.
                constructStruct_loop p flds vars')))"

definition constructStruct ::
    "gopkg \<Rightarrow> gotype \<Rightarrow> var list \<Rightarrow> string list \<Rightarrow> (string \<times> string list) gen" where
  "constructStruct wpkg n s vars =
     bind (declare' 605 ''p'') (\<lambda>p.
     bind (line [''var '', p, '' '', typeString wpkg n]) (\<lambda>_.
     bind (constructStruct_loop p s vars) (\<lambda>vars'.
     Return (p, vars'))))"

fun constructParams :: "gopkg \<Rightarrow> Param list \<Rightarrow> string list \<Rightarrow> string list gen" where
  "constructParams wpkg [] names = Return []"
| "constructParams wpkg (p # params) names =
     (case unwrapStruct (Param_Type p) of
        (Some n, Some s) \<Rightarrow>
          bind (constructStruct wpkg n s names) (\<lambda>(v, names').
          bind (constructParams wpkg params names') (\<lambda>res.
          Return (v # res)))
      | _ \<Rightarrow>
          (case names of
             [] \<Rightarrow> Throw IndexOutOfRange
           | name # names' \<Rightarrow>
               bind (constructParams wpkg params names') (\<lambda>res.
               Return (name # res))))"

text \<open>
  The part that \<open>hookShortcut\<close> and \<open>hookFuncShortcut\<close> share from the parameter list
  on; they differ in what is written before the first parameter and in the call.
\<close>

fun hookFuncShortcut :: "gopkg \<Rightarrow> func \<Rightarrow> string \<Rightarrow> unit gen" where
  "hookFuncShortcut wpkg (Func fparams results) name =
     newScope (
       bind (code [''func('']) (\<lambda>_.
       bind (declareParams (flattenParams fparams)) (\<lambda>names. seq [
         forI (flattenParams fparams) (\<lambda>i p. seq [
           if i > 0 then code ['', ''] else skip,
           code [names ! i, '' '', typeString wpkg (Param_Type p)]]),
         code ['')''],
         if HasResult (Func fparams results) then code ['' ''] else skip,
         shortcutFuncResults wpkg (Func fparams results),
         line ['' {''],
         block (
           bind (forM names (\<lambda>name. capture 699 [name])) (\<lambda>_.
           bind (constructParams wpkg fparams names) (\<lambda>params.
           bind (if HasResult (Func fparams results)
                 then bind (declare' 704 ''res'') (\<lambda>res.
                      bind (code [res, '' := '']) (\<lambda>_. Return res))
                 else Return []) (\<lambda>res.
           bind (code [name]) (\<lambda>_.
           bind (call params) (\<lambda>_.
           case results of
             [] \<Rightarrow> skip
           | RFunc x # rs \<Rightarrow> seq [code [''return ''], hookFuncShortcut wpkg x res]
           | RTrace x # rs \<Rightarrow> seq [code [''return ''], line [res]]
           | ROther # rs \<Rightarrow> seq [code [''return ''], Throw UnexpectedResultType])))))),
         line [''}'']])))"

definition hookShortcut :: "gopkg \<Rightarrow> Trace \<Rightarrow> Hook \<Rightarrow> unit gen" where
  "hookShortcut wpkg trace h =
     bind (lift (bind_result (tempName (Trace_Name trace) (Hook_Name h)) exported)) (\<lambda>name.
     bind (mustDeclare 623 name) (\<lambda>_.
     newScope (
       bind (declare' 626 ''t'') (\<lambda>t.
       bind (code [''func '', name]) (\<lambda>_.
       bind (code [''('']) (\<lambda>_.
       bind (code [t, '' *'', Trace_Name trace]) (\<lambda>_.
       bind (declareParams (flattenParams (Params (Hook_Func h)))) (\<lambda>names. seq [
         forI (flattenParams (Params (Hook_Func h))) (\<lambda>i p. seq [
           code ['', ''],
           code [names ! i, '' '', typeString wpkg (Param_Type p)]]),
         code ['')''],
         if HasResult (Hook_Func h) then code ['' ''] else skip,
         shortcutFuncResultsFlags wpkg (Hook_Func h) docs,
         line ['' {''],
         block (
           bind (forM names (\<lambda>name. capture 648 [name])) (\<lambda>_.
           bind (constructParams wpkg (Params (Hook_Func h)) names) (\<lambda>vars.
           bind (if HasResult (Hook_Func h)
                 then bind (declare' 653 ''res'') (\<lambda>res.
                      bind (code [res, '' := '']) (\<lambda>_. Return res))
                 else Return []) (\<lambda>res.
           bind (lift (unexported (Hook_Name h))) (\<lambda>u.
           bind (code [t, ''.'', u]) (\<lambda>_.
           bind (call vars) (\<lambda>_.
           case Result (Hook_Func h) of
             [] \<Rightarrow> skip
           | RFunc x # rs \<Rightarrow> seq [code [''return ''], hookFuncShortcut wpkg x res]
           | RTrace x # rs \<Rightarrow> seq [code [''return ''], line [res]]
           | ROther # rs \<Rightarrow> seq [code [''return ''], Throw UnexpectedResultType]))))))),
         line [''}'']]))))))))"

section \<open>The import block\<close>

text \<open>The comparison that \<open>importDeps\<close> hands to \<open>sort.Slice\<close>.\<close>

definition less_dep :: "dep \<Rightarrow> dep \<Rightarrow> bool gen" where
  "less_dep d0 d1 =
     bind (isStdLib (pkgPath d0)) (\<lambda>std0.
     bind (isStdLib (pkgPath d1)) (\<lambda>std1.
     Return (if std0 \<noteq> std1 then std0 else pkgPath d0 < pkgPath d1)))"

text \<open>
  \<open>sort.Slice\<close> is modelled by the insertion sort it runs on a slice of at most twelve
  elements: each element in turn moves towards the front while it is less than its left
  neighbour. (On a longer slice the library runs a quicksort; the paths being distinct,
  the comparison is a strict linear order and the result is the same.) The sorted part
  is kept in reverse.
\<close>

fun insert_sorted :: "dep \<Rightarrow> dep list \<Rightarrow> dep list gen" where
  "insert_sorted x [] = Return [x]"
| "insert_sorted x (y # ys) =
     bind (less_dep x y) (\<lambda>b.
     if b then bind (insert_sorted x ys) (\<lambda>zs. Return (y # zs))
     else Return (x # y # ys))"

fun sort_from :: "dep list \<Rightarrow> dep list \<Rightarrow> dep list gen" where
  "sort_from sorted_rev [] = Return (rev sorted_rev)"
| "sort_from sorted_rev (x # xs) =
     bind (insert_sorted x sorted_rev) (\<lambda>sorted_rev'. sort_from sorted_rev' xs)"

definition sort_Slice :: "dep list \<Rightarrow> dep list gen" where
  "sort_Slice deps = (case deps of [] \<Rightarrow> Return [] | d # ds \<Rightarrow> sort_from [d] ds)"

fun importDeps_loop :: "bool \<Rightarrow> dep list \<Rightarrow> unit gen" where
  "importDeps_loop lastStd [] = skip"
| "importDeps_loop lastStd (d # deps) =
     bind (isStdLib (pkgPath d)) (\<lambda>isStd.
     bind (if isStd then skip else if lastStd then line [] else skip) (\<lambda>_.
     bind (line [[CHR 0x09], [CHR 0x22], pkgPath d, [CHR 0x22]]) (\<lambda>_.
     importDeps_loop (if isStd then True else if lastStd then False else lastStd) deps)))"

definition importDeps :: "dep list \<Rightarrow> unit gen" where
  "importDeps deps0 =
     (if length (dedup 0 {} deps0) = 0 then skip
      else bind (sort_Slice (dedup 0 {} deps0)) (\<lambda>deps. seq [
             line [''import (''],
             importDeps_loop False deps,
             line ['')''],
             line []]))"

section \<open>Write\<close>

definition Write_body :: "Package \<Rightarrow> unit gen" where
  "Write_body p =
     seq [
       line [''// Code generated by gtrace. DO NOT EDIT.''],
       forI (BuildConstraints p) (\<lambda>i l. seq [if i = 0 then line [] else skip, line [l]]),
       line [],
       line [''package '', pkg_Name (Package_pkg p)],
       line [],
       importDeps (fold (\<lambda>trace deps. traceImports (Package_pkg p) deps trace) (Traces p) []),
       newScope (seq [
         forM (Traces p) (\<lambda>trace. seq [
           options trace,
           compose (Package_pkg p) trace,
           if Nested trace then isZero trace else skip,
           forM (Hooks trace) (\<lambda>h. hook (Package_pkg p) trace h)]),
         forM (Traces p) (\<lambda>trace.
           forM (Hooks trace) (\<lambda>h. hookShortcut (Package_pkg p) trace h))])]"

text \<open>\<open>Writer.init\<close>: the buffered writer and the list of scopes are made once.\<close>

definition init :: "Writer \<Rightarrow> Writer" where
  "init w = (if once w then w else w\<lparr>once := True, bw := [], scope := []\<rparr>)"

text \<open>
  \<open>Write\<close>: the run of \<open>Write_body\<close>, and the final \<open>Flush\<close> when it returns. A panic
  leaves the writer as it is at that moment.
\<close>

definition Write :: "env \<Rightarrow> Package \<Rightarrow> Writer \<Rightarrow> unit result \<times> Writer" where
  "Write e p w =
     (case run e (Package_pkg p) (Write_body p) (init w) of
        (Ok _, w') \<Rightarrow> (Ok (), Flush w')
      | (Panic x, w') \<Rightarrow> (Panic x, w'))"


section \<open>Example inputs\<close>

text \<open>A writer after \<open>init\<close>, inside the outermost scope, and an environment for it.\<close>

definition w_global :: Writer where
  "w_global = \<lparr>Output = [], once = True, bw = [], atEOL = False, depth = 0, scope = [[]],
     std = None\<rparr>"

text \<open>The zero value of the writer, before \<open>Write\<close> is called for the first time.\<close>

definition w_zero :: Writer where
  "w_zero = \<lparr>Output = [], once = False, bw = [], atEOL = False, depth = 0, scope = [],
     std = None\<rparr>"

definition env0 :: env where
  "env0 = \<lparr>srcfile = ''writer.go'',
     goroot_src = Inr [(''cmd'', True), (''fmt'', True), (''go.mod'', False), (''internal'', True),
                       (''net'', True)]\<rparr>"

definition pkg0 :: gopkg where
  "pkg0 = \<lparr>pkg_Path = ''example.com/trace'', pkg_Name = ''trace'', pkg_Scope = [''Driver'']\<rparr>"

definition tInt :: gotype where
  "tInt = Other (\<lambda>qf. ''int'')"

definition tError :: gotype where
  "tError = Named None ''error'' (Other (\<lambda>qf. ''interface{Error() string}''))"

definition pkgContext :: gopkg where
  "pkgContext = \<lparr>pkg_Path = ''context'', pkg_Name = ''context'', pkg_Scope = []\<rparr>"

definition tContext :: gotype where
  "tContext = Named (Some pkgContext) ''Context'' (Other (\<lambda>qf. ''interface{...}''))"

text \<open>A struct of the package with the exported fields \<open>X\<close> and \<open>Y\<close>.\<close>

definition tPoint :: gotype where
  "tPoint = Named (Some pkg0) ''Point'' (Struct [Var ''X'' tInt True, Var ''Y'' tInt True])"

definition tDone :: gotype where
  "tDone = Named (Some pkg0) ''DoneInfo'' (Struct [Var ''Err'' tError True])"

text \<open>A trace with one hook \<open>OnMove(Point)\<close> without result.\<close>

definition traceA :: Trace where
  "traceA = \<lparr>Trace_Name = ''Driver'', Nested = False,
     Hooks = [\<lparr>Hook_Name = ''OnMove'',
               Hook_Func = Func [\<lparr>Param_Name = [], Param_Type = tPoint\<rparr>] []\<rparr>]\<rparr>"

definition packageA :: Package where
  "packageA = \<lparr>Package_pkg = pkg0, BuildConstraints = [''//go:build linux''], Traces = [traceA]\<rparr>"

text \<open>A nested trace with a hook that returns a continuation.\<close>

definition traceB :: Trace where
  "traceB = \<lparr>Trace_Name = ''Conn'', Nested = True,
     Hooks = [\<lparr>Hook_Name = ''OnDial'',
               Hook_Func = Func [\<lparr>Param_Name = ''ctx'', Param_Type = tContext\<rparr>]
                             [RFunc (Func [\<lparr>Param_Name = [], Param_Type = tDone\<rparr>] [])]\<rparr>]\<rparr>"

definition packageB :: Package where
  "packageB = \<lparr>Package_pkg = pkg0, BuildConstraints = [], Traces = [traceA, traceB]\<rparr>"

section \<open>Lemmas about the scope allocator\<close>

lemma declare_loop_free:
  "\<not> blocked pkg glob s (candidate name i) \<Longrightarrow>
   declare_loop pkg glob loc s name i =
     (candidate name i, s @ [(candidate name i, \<lparr>decl_where = loc\<rparr>)])"
  by (subst declare_loop.simps) (auto simp: blocked_def scope_set_def)

lemma declare_loop_blocked:
  "blocked pkg glob s (candidate name i) \<Longrightarrow>
   declare_loop pkg glob loc s name i = declare_loop pkg glob loc s name (Suc i)"
  by (subst declare_loop.simps) (auto simp: blocked_def scope_set_def)

lemma declare_loop_result:
  "\<exists>k\<ge>i. declare_loop pkg glob loc s name i =
            (candidate name k, s @ [(candidate name k, \<lparr>decl_where = loc\<rparr>)])
        \<and> \<not> blocked pkg glob s (candidate name k)
        \<and> (\<forall>j. i \<le> j \<and> j < k \<longrightarrow> blocked pkg glob s (candidate name j))"
proof (induction pkg glob loc s name i rule: declare_loop.induct)
  case (1 pkg glob loc s name i)
  show ?case
  proof (cases "blocked pkg glob s (candidate name i)")
    case False
    then show ?thesis
      by (intro exI [of _ i]) (auto simp add: declare_loop_free)
  next
    case True
    have "\<exists>k\<ge>i + 1. declare_loop pkg glob loc s name (i + 1) =
            (candidate name k, s @ [(candidate name k, \<lparr>decl_where = loc\<rparr>)])
        \<and> \<not> blocked pkg glob s (candidate name k)
        \<and> (\<forall>j. i + 1 \<le> j \<and> j < k \<longrightarrow> blocked pkg glob s (candidate name j))"
    proof (cases "IsKeyword (candidate name i)")
      case True
      then show ?thesis by (rule "1.IH"(1))
    next
      case nk: False
      show ?thesis
      proof (cases "glob \<and> Lookup pkg (candidate name i)")
        case True
        with nk show ?thesis by (intro "1.IH"(2))
      next
        case ng: False
        with nk True have "map_of s (candidate name i) \<noteq> None"
          by (auto simp: blocked_def)
        then have "scope_set loc (candidate name i) s = (False, s)"
          by (simp add: scope_set_def)
        with nk ng show ?thesis by (intro "1.IH"(3)) auto
      qed
    qed
    then obtain k where k: "k \<ge> i + 1"
      "declare_loop pkg glob loc s name (i + 1) =
            (candidate name k, s @ [(candidate name k, \<lparr>decl_where = loc\<rparr>)])"
      "\<not> blocked pkg glob s (candidate name k)"
      "\<forall>j. i + 1 \<le> j \<and> j < k \<longrightarrow> blocked pkg glob s (candidate name j)"
      by blast
    have "\<forall>j. i \<le> j \<and> j < k \<longrightarrow> blocked pkg glob s (candidate name j)"
    proof (intro allI impI)
      fix j assume "i \<le> j \<and> j < k"
      then have "j = i \<or> (i + 1 \<le> j \<and> j < k)" by auto
      with True k(4) show "blocked pkg glob s (candidate name j)" by auto
    qed
    with k True show ?thesis
      by (intro exI [of _ k]) (simp add: declare_loop_blocked)
  qed
qed

lemma firstChar_predeclared: "isPredeclared name \<Longrightarrow> firstChar name = Ok [hd name]"
  unfolding isPredeclared_def Universe_def
  by (auto simp: firstChar_def RuneError_def)

lemma single_not_predeclared: "\<not> isPredeclared [c]"
  by (simp add: isPredeclared_def Universe_def)

lemma Writer_declare_search:
  assumes "\<not> isPredeclared name" and "scope w = s # rest"
  shows "\<exists>k. Writer_declare e pkg l name w =
               (Ok (candidate name k),
                w\<lparr>scope := (s @ [(candidate name k, \<lparr>decl_where = caller e l\<rparr>)]) # rest\<rparr>)
           \<and> \<not> blocked pkg (rest = []) s (candidate name k)
           \<and> (\<forall>j<k. blocked pkg (rest = []) s (candidate name j))"
proof -
  from declare_loop_result [of 0 pkg "rest = []" "caller e l" s name]
  obtain k where k: "declare_loop pkg (rest = []) (caller e l) s name 0 =
            (candidate name k, s @ [(candidate name k, \<lparr>decl_where = caller e l\<rparr>)])"
        "\<not> blocked pkg (rest = []) s (candidate name k)"
        "\<forall>j. 0 \<le> j \<and> j < k \<longrightarrow> blocked pkg (rest = []) s (candidate name j)"
    by blast
  have "isGlobalScope w = (rest = [])"
    using assms(2) by (simp add: isGlobalScope_def)
  with assms k show ?thesis
    by (intro exI [of _ k]) (simp add: Writer_declare_def)
qed

lemma Writer_declare_predeclared:
  assumes "isPredeclared name"
  shows "Writer_declare e pkg l name w = Writer_declare e pkg l [hd name] w"
  using assms by (simp add: Writer_declare_def firstChar_predeclared single_not_predeclared)

lemma least_round_unique:
  assumes "\<not> B (k::nat)" "\<forall>j<k. B j" "\<not> B k'" "\<forall>j<k'. B j"
  shows "k = k'"
  using assms by (meson linorder_neqE_nat)

lemma run_newScope_declare:
  "\<exists>v. \<forall>l. run e pkg (newScope (declare' l name)) w = (Ok v, w)"
proof -
  define name' where "name' = (if isPredeclared name then [hd name] else name)"
  have np: "\<not> isPredeclared name'"
    by (simp add: name'_def single_not_predeclared)
  define w1 where "w1 = w\<lparr>scope := [] # scope w\<rparr>"
  have sc: "scope w1 = [] # scope w" by (simp add: w1_def)
  have eq: "Writer_declare e pkg l name w1 = Writer_declare e pkg l name' w1" for l
    by (simp add: name'_def Writer_declare_predeclared)
  from Writer_declare_search [OF np sc, of e pkg 0]
  obtain k where k: "\<not> blocked pkg (scope w = []) [] (candidate name' k)"
        "\<forall>j<k. blocked pkg (scope w = []) [] (candidate name' j)"
    by blast
  have "run e pkg (newScope (declare' l name)) w = (Ok (candidate name' k), w)" for l
  proof -
    from Writer_declare_search [OF np sc, of e pkg l]
    obtain k' where k': "Writer_declare e pkg l name' w1 =
               (Ok (candidate name' k'),
                w1\<lparr>scope := ([] @ [(candidate name' k', \<lparr>decl_where = caller e l\<rparr>)]) # scope w\<rparr>)"
        "\<not> blocked pkg (scope w = []) [] (candidate name' k')"
        "\<forall>j<k'. blocked pkg (scope w = []) [] (candidate name' j)"
      by blast
    have "k' = k"
      using k k'(2,3) by (intro least_round_unique [of "\<lambda>j. blocked pkg (scope w = []) [] (candidate name' j)"])
    with k'(1) eq [of l] show ?thesis
      by (simp add: newScope_def declare'_def w1_def)
  qed
  then show ?thesis by blast
qed

lemma capture_loop_taken:
  "v \<in> set vars \<Longrightarrow> map_of s v \<noteq> None \<Longrightarrow>
   \<exists>u s'. capture_loop loc vars s = (Panic (CantCapture u), s')"
proof (induction vars arbitrary: s)
  case Nil
  then show ?case by simp
next
  case (Cons a vars)
  show ?case
  proof (cases "map_of s a = None")
    case False
    then show ?thesis by (simp add: scope_set_def)
  next
    case True
    with Cons.prems have v: "v \<in> set vars" by auto
    have "map_of (s @ [(a, \<lparr>decl_where = loc\<rparr>)]) v \<noteq> None"
      using Cons.prems(2) by (auto simp: map_add_def split: option.splits)
    from Cons.IH [OF v this] True show ?thesis
      by (simp add: scope_set_def)
  qed
qed

section \<open>Lemmas about running procedures\<close>

lemma run_bind:
  "run e pkg (bind m f) w =
     (case run e pkg m w of
        (Ok x, w') \<Rightarrow> run e pkg (f x) w'
      | (Panic p, w') \<Rightarrow> (Panic p, w'))"
  by (induction m arbitrary: w) (auto split: prod.splits result.splits list.splits)

lemma run_seq_Nil: "run e pkg (seq []) w = (Ok (), w)"
  by (simp add: seq_def)

lemma seq_Cons: "seq (m # ms) = bind m (\<lambda>_. seq ms)"
  by (simp add: seq_def)

lemma run_seq_Cons:
  "run e pkg (seq (m # ms)) w =
     (case run e pkg m w of
        (Ok _, w') \<Rightarrow> run e pkg (seq ms) w'
      | (Panic p, w') \<Rightarrow> (Panic p, w'))"
  by (simp only: seq_Cons run_bind)

section \<open>Lemmas about the emitter\<close>

lemma Flush_fields [simp]:
  "atEOL (Flush w) = atEOL w" "depth (Flush w) = depth w" "scope (Flush w) = scope w"
  "std (Flush w) = std w" "once (Flush w) = once w"
  by (simp_all add: Flush_def)

lemma WriteByte_fields [simp]:
  "atEOL (WriteByte c w) = atEOL w" "depth (WriteByte c w) = depth w"
  "scope (WriteByte c w) = scope w" "std (WriteByte c w) = std w" "once (WriteByte c w) = once w"
  by (simp_all add: WriteByte_def)

lemma WriteString_fields [simp]:
  "atEOL (WriteString s w) = atEOL w" "depth (WriteString s w) = depth w"
  "scope (WriteString s w) = scope w" "std (WriteString s w) = std w"
  "once (WriteString s w) = once w"
proof (induction s w rule: WriteString.induct)
  case (1 s w)
  {
    case 1 show ?case using "1.IH"(1) by (subst WriteString.simps) simp
  next
    case 2 show ?case using "1.IH"(2) by (subst WriteString.simps) simp
  next
    case 3 show ?case using "1.IH"(3) by (subst WriteString.simps) simp
  next
    case 4 show ?case using "1.IH"(4) by (subst WriteString.simps) simp
  next
    case 5 show ?case using "1.IH"(5) by (subst WriteString.simps) simp
  }
qed

lemma funpow_WriteByte_fields [simp]:
  "atEOL ((WriteByte c ^^ n) w) = atEOL w" "depth ((WriteByte c ^^ n) w) = depth w"
  "scope ((WriteByte c ^^ n) w) = scope w" "std ((WriteByte c ^^ n) w) = std w"
  "once ((WriteByte c ^^ n) w) = once w"
  by (induction n) simp_all

lemma fold_WriteString_fields [simp]:
  "atEOL (fold WriteString args w) = atEOL w" "depth (fold WriteString args w) = depth w"
  "scope (fold WriteString args w) = scope w" "std (fold WriteString args w) = std w"
  "once (fold WriteString args w) = once w"
  by (induction args arbitrary: w) simp_all

lemma Writer_code_fields [simp]:
  "atEOL (Writer_code args w) = False" "depth (Writer_code args w) = depth w"
  "scope (Writer_code args w) = scope w" "std (Writer_code args w) = std w"
  "once (Writer_code args w) = once w"
  by (simp_all add: Writer_code_def)

lemma Writer_line_fields [simp]:
  "atEOL (Writer_line args w) = True" "depth (Writer_line args w) = depth w"
  "scope (Writer_line args w) = scope w" "std (Writer_line args w) = std w"
  "once (Writer_line args w) = once w"
  by (simp_all add: Writer_line_def)


section \<open>Lemmas about the classification of import paths\<close>

lemma Split_nonempty: "Split c s \<noteq> []"
  by (induction s) (auto split: list.splits)

lemma hd_Split: "hd (Split c s) = takeWhile (\<lambda>x. x \<noteq> c) s"
  using Split_nonempty [of c]
  by (induction s) (auto split: list.splits)

lemma Base_plain: "f \<noteq> [] \<Longrightarrow> CHR ''/'' \<notin> set f \<Longrightarrow> Base f = f"
proof -
  assume ne: "f \<noteq> []" and ns: "CHR ''/'' \<notin> set f"
  have d: "dropWhile (\<lambda>c. c = CHR ''/'') (rev f) = rev f"
    using ne ns by (cases "rev f") auto
  have t: "takeWhile (\<lambda>c. c \<noteq> CHR ''/'') (rev f) = rev f"
    using ns by (intro takeWhile_eq_all_conv [THEN iffD2]) auto
  show ?thesis
    using ne by (simp add: Base_def d t)
qed

lemma std_entries_lookup:
  "std_entries files m seg =
     (if \<exists>f. (f, True) \<in> set files \<and> Base f = seg \<and> seg \<noteq> ''cmd'' \<and> seg \<noteq> ''internal''
      then Some True else m seg)"
proof (induction files m rule: std_entries.induct)
  case (1 m)
  show ?case by simp
next
  case (2 fname isDir files m)
  show ?case
  proof (cases "\<not> isDir \<or> Base fname = ''cmd'' \<or> Base fname = ''internal''")
    case True
    then have "std_entries ((fname, isDir) # files) m seg = std_entries files m seg"
      by auto
    also have "\<dots> = (if \<exists>f. (f, True) \<in> set files \<and> Base f = seg \<and> seg \<noteq> ''cmd''
                           \<and> seg \<noteq> ''internal'' then Some True else m seg)"
      using True "2.IH"(1,2) by blast
    also have "\<dots> = (if \<exists>f. (f, True) \<in> set ((fname, isDir) # files) \<and> Base f = seg
                           \<and> seg \<noteq> ''cmd'' \<and> seg \<noteq> ''internal'' then Some True else m seg)"
      using True by auto
    finally show ?thesis .
  next
    case False
    then have "std_entries ((fname, isDir) # files) m seg
                 = std_entries files (m(Base fname \<mapsto> True)) seg"
      by auto
    also have "\<dots> = (if \<exists>f. (f, True) \<in> set files \<and> Base f = seg \<and> seg \<noteq> ''cmd''
                           \<and> seg \<noteq> ''internal'' then Some True
                        else (m(Base fname \<mapsto> True)) seg)"
      using False "2.IH"(3) by blast
    also have "\<dots> = (if \<exists>f. (f, True) \<in> set ((fname, isDir) # files) \<and> Base f = seg
                           \<and> seg \<noteq> ''cmd'' \<and> seg \<noteq> ''internal'' then Some True else m seg)"
      using False by auto
    finally show ?thesis .
  qed
qed

lemma std_entries_plain:
  assumes "\<forall>(f, d) \<in> set files. f \<noteq> [] \<and> CHR ''/'' \<notin> set f"
  shows "std_entries files Map.empty seg =
     (if (seg, True) \<in> set files \<and> seg \<noteq> ''cmd'' \<and> seg \<noteq> ''internal''
      then Some True else None)"
proof -
  have "(\<exists>f. (f, True) \<in> set files \<and> Base f = seg) = ((seg, True) \<in> set files)"
    using assms Base_plain by fastforce
  then show ?thesis
    by (auto simp: std_entries_lookup)
qed

lemma Writer_isStdLib_cached:
  "std w = Some m \<Longrightarrow>
   Writer_isStdLib e path w = (Ok (m (takeWhile (\<lambda>c. c \<noteq> CHR ''/'') path) = Some True), w)"
  by (auto simp: Writer_isStdLib_def Writer_ensureStdLibMapping_def hd_Split split: option.splits)

lemma Writer_isStdLib_first:
  "std w = None \<Longrightarrow> goroot_src e = Inr files \<Longrightarrow>
   Writer_isStdLib e path w =
     (Ok (std_entries files Map.empty (takeWhile (\<lambda>c. c \<noteq> CHR ''/'') path) = Some True),
      w\<lparr>std := Some (std_entries files Map.empty)\<rparr>)"
  by (auto simp: Writer_isStdLib_def Writer_ensureStdLibMapping_def hd_Split split: option.splits)

lemma Writer_isStdLib_fields:
  "Writer_isStdLib e path w = (r, w') \<Longrightarrow>
   Output w' = Output w \<and> bw w' = bw w \<and> atEOL w' = atEOL w \<and> depth w' = depth w
   \<and> scope w' = scope w \<and> once w' = once w"
  by (auto simp: Writer_isStdLib_def Writer_ensureStdLibMapping_def
           split: if_splits sum.splits)

section \<open>Lemmas about what the scope operations leave alone\<close>

lemma Writer_declare_fields:
  "Writer_declare e pkg l name w = (r, w') \<Longrightarrow>
   Output w' = Output w \<and> bw w' = bw w \<and> atEOL w' = atEOL w \<and> depth w' = depth w
   \<and> std w' = std w \<and> once w' = once w \<and> length (scope w') = length (scope w)"
  by (auto simp: Writer_declare_def split: result.splits list.splits prod.splits if_splits)

lemma Writer_mustDeclare_fields:
  "Writer_mustDeclare e l name w = (r, w') \<Longrightarrow>
   Output w' = Output w \<and> bw w' = bw w \<and> atEOL w' = atEOL w \<and> depth w' = depth w
   \<and> std w' = std w \<and> once w' = once w \<and> length (scope w') = length (scope w)"
  by (auto simp: Writer_mustDeclare_def split: list.splits prod.splits bool.splits)

lemma Writer_capture_fields:
  "Writer_capture e l vars w = (r, w') \<Longrightarrow>
   Output w' = Output w \<and> bw w' = bw w \<and> atEOL w' = atEOL w \<and> depth w' = depth w
   \<and> std w' = std w \<and> once w' = once w \<and> length (scope w') = length (scope w)"
  by (auto simp: Writer_capture_def split: list.splits prod.splits)

lemma run_std_const: "std w = Some m \<Longrightarrow> std (snd (run e pkg g w)) = Some m"
proof (induction g arbitrary: w)
  case (Declare l name k)
  then show ?case
    by (auto split: prod.splits result.splits dest: Writer_declare_fields)
next
  case (MustDeclare l name k)
  then show ?case
    by (auto split: prod.splits result.splits dest: Writer_mustDeclare_fields)
next
  case (Capture l vars k)
  then show ?case
    by (auto split: prod.splits result.splits dest: Writer_capture_fields)
next
  case (IsStdLib path k)
  then show ?case
    by (auto simp: Writer_isStdLib_cached split: prod.splits result.splits)
next
  case (PopScope k)
  then show ?case by (auto split: list.splits)
qed auto

section \<open>The claims\<close>

text \<open>
  C2 (as amended). \<open>declare\<close> of a name that is not predeclared returns the first of
  the candidates \<open>name\<close>, \<open>name1\<close>, \<open>name2\<close>, ... that is free: not a keyword, not
  a package-level name when the scope is the outermost one, not taken in the scope. The
  base name itself is round 0, the numeric suffixes start at 1. Two declarations of
  \<open>t\<close> in one scope give \<open>t\<close> and \<open>t1\<close>; the same name declared in two sibling scopes
  gives the same identifier twice and leaves the writer as it was.
\<close>
theorem declare_suffix_search:
  assumes "\<not> isPredeclared name" and "scope w = s # rest"
  shows "(\<exists>k. Writer_declare e pkg l name w =
               (Ok (candidate name k),
                w\<lparr>scope := (s @ [(candidate name k, \<lparr>decl_where = caller e l\<rparr>)]) # rest\<rparr>)
           \<and> \<not> blocked pkg (rest = []) s (candidate name k)
           \<and> (\<forall>j<k. blocked pkg (rest = []) s (candidate name j))
           \<and> candidate name k = (if k = 0 then name else name @ Itoa k))
       \<and> fst (run env0 pkg0 (bind (declare' 1 ''t'') (\<lambda>a. bind (declare' 2 ''t'') (\<lambda>b.
                 Return (a, b)))) w_global) = Ok (''t'', ''t1'')
       \<and> (\<exists>v. run e pkg (bind (newScope (declare' l1 name)) (\<lambda>a.
                 bind (newScope (declare' l2 name)) (\<lambda>b. Return (a, b)))) w = (Ok (v, v), w))"
proof (intro conjI)
  from Writer_declare_search [OF assms, of e pkg l]
  show "\<exists>k. Writer_declare e pkg l name w =
               (Ok (candidate name k),
                w\<lparr>scope := (s @ [(candidate name k, \<lparr>decl_where = caller e l\<rparr>)]) # rest\<rparr>)
           \<and> \<not> blocked pkg (rest = []) s (candidate name k)
           \<and> (\<forall>j<k. blocked pkg (rest = []) s (candidate name j))
           \<and> candidate name k = (if k = 0 then name else name @ Itoa k)"
    by (metis candidate_def not_gr_zero)
  show "fst (run env0 pkg0 (bind (declare' 1 ''t'') (\<lambda>a. bind (declare' 2 ''t'') (\<lambda>b.
                 Return (a, b)))) w_global) = Ok (''t'', ''t1'')"
    by code_simp
  from run_newScope_declare [of e pkg name w]
  obtain v where v: "\<And>l. run e pkg (newScope (declare' l name)) w = (Ok v, w)"
    by blast
  have "run e pkg (bind (newScope (declare' l1 name)) (\<lambda>a.
                 bind (newScope (declare' l2 name)) (\<lambda>b. Return (a, b)))) w = (Ok (v, v), w)"
    by (simp add: run_bind v)
  then show "\<exists>v. run e pkg (bind (newScope (declare' l1 name)) (\<lambda>a.
                 bind (newScope (declare' l2 name)) (\<lambda>b. Return (a, b)))) w = (Ok (v, v), w)"
    by blast
qed

theorem declare_suffix_search_witness:
  "\<not> isPredeclared ''t'' \<and> scope w_global = [] # []
   \<and> fst (run env0 pkg0 (bind (declare' 1 ''t'') (\<lambda>a. bind (declare' 2 ''t'') (\<lambda>b.
             Return (a, b)))) w_global) = Ok (''t'', ''t1'')"
proof -
  have h1: "\<not> isPredeclared ''t''" by code_simp
  have h2: "scope w_global = [] # []" by (simp add: w_global_def)
  from declare_suffix_search [OF h1 h2] h1 h2 show ?thesis by blast
qed

theorem declare_suffix_zero_counterexample:
  "fst (Writer_declare env0 pkg0 2 ''t'' (snd (Writer_declare env0 pkg0 1 ''t'' w_global)))
     = Ok ''t1''
   \<and> fst (Writer_declare env0 pkg0 2 ''t'' (snd (Writer_declare env0 pkg0 1 ''t'' w_global)))
     \<noteq> Ok ''t0''"
  by code_simp

text \<open>
  C8. \<open>mustDeclare\<close> of a name that is free in the current scope registers it with
  the place of the call; of a name that is taken it panics with the name and the place
  of the earlier declaration, so the second of two calls for one name reports the first
  call's place. \<open>capture\<close> panics when one of its names is taken in the current scope.
  Both panics are what the specification calls \<open>HardCollision\<close>.
\<close>
theorem mustDeclare_hard_collision:
  assumes "scope w = s # rest"
  shows "(map_of s name = None \<longrightarrow>
            Writer_mustDeclare e l name w =
              (Ok (), w\<lparr>scope := (s @ [(name, \<lparr>decl_where = caller e l\<rparr>)]) # rest\<rparr>)
          \<and> run e pkg (seq [mustDeclare l name, mustDeclare l' name]) w =
              (Panic (CantDeclare name (caller e l)),
               w\<lparr>scope := (s @ [(name, \<lparr>decl_where = caller e l\<rparr>)]) # rest\<rparr>))
       \<and> (\<forall>d. map_of s name = Some d \<longrightarrow>
            Writer_mustDeclare e l name w = (Panic (CantDeclare name (decl_where d)), w))
       \<and> HardCollision (CantDeclare name loc)
       \<and> (map_of s name \<noteq> None \<longrightarrow>
            Writer_capture e l [name] w = (Panic (CantCapture name), w))
       \<and> (name \<in> set vars \<and> map_of s name \<noteq> None \<longrightarrow>
            (\<exists>u w'. Writer_capture e l vars w = (Panic (CantCapture u), w')))
       \<and> HardCollision (CantCapture name)"
proof (intro conjI impI allI)
  assume free: "map_of s name = None"
  show first: "Writer_mustDeclare e l name w =
              (Ok (), w\<lparr>scope := (s @ [(name, \<lparr>decl_where = caller e l\<rparr>)]) # rest\<rparr>)"
    using assms free by (simp add: Writer_mustDeclare_def scope_set_def)
  have "Writer_mustDeclare e l' name
          (w\<lparr>scope := (s @ [(name, \<lparr>decl_where = caller e l\<rparr>)]) # rest\<rparr>) =
        (Panic (CantDeclare name (caller e l)),
         w\<lparr>scope := (s @ [(name, \<lparr>decl_where = caller e l\<rparr>)]) # rest\<rparr>)"
    using free by (simp add: Writer_mustDeclare_def scope_set_def scope_where_def map_add_def)
  with first show "run e pkg (seq [mustDeclare l name, mustDeclare l' name]) w =
              (Panic (CantDeclare name (caller e l)),
               w\<lparr>scope := (s @ [(name, \<lparr>decl_where = caller e l\<rparr>)]) # rest\<rparr>)"
    by (simp add: run_seq_Cons mustDeclare_def)
next
  fix d assume "map_of s name = Some d"
  with assms show "Writer_mustDeclare e l name w = (Panic (CantDeclare name (decl_where d)), w)"
    by (simp add: Writer_mustDeclare_def scope_set_def scope_where_def)
next
  show "HardCollision (CantDeclare name loc)" "HardCollision (CantCapture name)"
    by (simp_all add: HardCollision_def)
next
  assume "map_of s name \<noteq> None"
  with assms show "Writer_capture e l [name] w = (Panic (CantCapture name), w)"
    by (auto simp add: Writer_capture_def scope_set_def)
next
  assume "name \<in> set vars \<and> map_of s name \<noteq> None"
  then obtain u s' where "capture_loop (caller e l) vars s = (Panic (CantCapture u), s')"
    using capture_loop_taken by blast
  with assms show "\<exists>u w'. Writer_capture e l vars w = (Panic (CantCapture u), w')"
    by (simp add: Writer_capture_def)
qed

theorem mustDeclare_hard_collision_witness:
  "scope w_global = [] # [] 
   \<and> fst (run env0 pkg0 (seq [mustDeclare 623 ''x'', mustDeclare 624 ''x'']) w_global)
       = Panic (CantDeclare ''x'' ''writer.go:623'')"
proof -
  have h: "scope w_global = [] # []" by (simp add: w_global_def)
  have c: "caller env0 623 = ''writer.go:623''" by code_simp
  from mustDeclare_hard_collision [OF h, of "''x''" env0 623 pkg0 624] h c
  show ?thesis by simp
qed

text \<open>
  C9. \<open>declare\<close> of a predeclared identifier of the universe scope is \<open>declare\<close> of
  its first character: the collision search runs on that one-character name, so it
  returns the first free candidate among \<open>c\<close>, \<open>c1\<close>, \<open>c2\<close>, ... and never the
  predeclared word with a suffix. In an empty scope \<open>error\<close> gives \<open>e\<close> and \<open>string\<close>
  gives \<open>s\<close>.
\<close>
theorem declare_predeclared_first_char:
  assumes "isPredeclared name" and "scope w = s # rest"
  shows "Writer_declare e pkg l name w = Writer_declare e pkg l [hd name] w
       \<and> (\<exists>k. Writer_declare e pkg l name w =
               (Ok (candidate [hd name] k),
                w\<lparr>scope := (s @ [(candidate [hd name] k, \<lparr>decl_where = caller e l\<rparr>)]) # rest\<rparr>)
             \<and> \<not> blocked pkg (rest = []) s (candidate [hd name] k)
             \<and> (\<forall>j<k. blocked pkg (rest = []) s (candidate [hd name] j)))
       \<and> fst (Writer_declare env0 pkg0 1 ''error'' w_global) = Ok ''e''
       \<and> fst (Writer_declare env0 pkg0 1 ''string'' w_global) = Ok ''s''"
proof (intro conjI)
  show eq: "Writer_declare e pkg l name w = Writer_declare e pkg l [hd name] w"
    using assms(1) by (rule Writer_declare_predeclared)
  show "\<exists>k. Writer_declare e pkg l name w =
               (Ok (candidate [hd name] k),
                w\<lparr>scope := (s @ [(candidate [hd name] k, \<lparr>decl_where = caller e l\<rparr>)]) # rest\<rparr>)
             \<and> \<not> blocked pkg (rest = []) s (candidate [hd name] k)
             \<and> (\<forall>j<k. blocked pkg (rest = []) s (candidate [hd name] j))"
    by (subst eq)
       (rule Writer_declare_search [OF single_not_predeclared [of "hd name"] assms(2), of e pkg l])
  show "fst (Writer_declare env0 pkg0 1 ''error'' w_global) = Ok ''e''"
    by code_simp
  show "fst (Writer_declare env0 pkg0 1 ''string'' w_global) = Ok ''s''"
    by code_simp
qed

theorem declare_predeclared_first_char_witness:
  "isPredeclared ''error'' \<and> scope w_global = [] # []
   \<and> Writer_declare env0 pkg0 1 ''error'' w_global
       = Writer_declare env0 pkg0 1 [hd ''error''] w_global
   \<and> fst (Writer_declare env0 pkg0 1 ''error'' w_global) = Ok ''e''"
proof -
  have h1: "isPredeclared ''error''" by code_simp
  have h2: "scope w_global = [] # []" by (simp add: w_global_def)
  from declare_predeclared_first_char [OF h1 h2] h1 h2 show ?thesis by blast
qed

text \<open>
  C10. \<open>isStdLib\<close> looks only at the part of the path before the first \<open>/\<close>: with
  the entries of the library source root being plain names, the path is standard iff that
  segment is one of the directories there and is neither \<open>cmd\<close> nor \<open>internal\<close>. The
  table is built by the first call; every later call, in whatever environment, answers
  from it and leaves the writer as it is, and no procedure of the generator changes it.
\<close>
theorem isStdLib_first_segment:
  assumes "std w = None" and "goroot_src e = Inr files"
    and "\<forall>(f, d) \<in> set files. f \<noteq> [] \<and> CHR ''/'' \<notin> set f"
  shows "Writer_isStdLib e path w =
           (Ok ((takeWhile (\<lambda>c. c \<noteq> CHR ''/'') path, True) \<in> set files
                 \<and> takeWhile (\<lambda>c. c \<noteq> CHR ''/'') path \<noteq> ''cmd''
                 \<and> takeWhile (\<lambda>c. c \<noteq> CHR ''/'') path \<noteq> ''internal''),
            w\<lparr>std := Some (std_entries files Map.empty)\<rparr>)
       \<and> Writer_isStdLib e' q (w\<lparr>std := Some (std_entries files Map.empty)\<rparr>) =
           (Ok ((takeWhile (\<lambda>c. c \<noteq> CHR ''/'') q, True) \<in> set files
                 \<and> takeWhile (\<lambda>c. c \<noteq> CHR ''/'') q \<noteq> ''cmd''
                 \<and> takeWhile (\<lambda>c. c \<noteq> CHR ''/'') q \<noteq> ''internal''),
            w\<lparr>std := Some (std_entries files Map.empty)\<rparr>)
       \<and> std (snd (run e' pkg g (w\<lparr>std := Some (std_entries files Map.empty)\<rparr>)))
           = Some (std_entries files Map.empty)"
proof (intro conjI)
  show "Writer_isStdLib e path w =
           (Ok ((takeWhile (\<lambda>c. c \<noteq> CHR ''/'') path, True) \<in> set files
                 \<and> takeWhile (\<lambda>c. c \<noteq> CHR ''/'') path \<noteq> ''cmd''
                 \<and> takeWhile (\<lambda>c. c \<noteq> CHR ''/'') path \<noteq> ''internal''),
            w\<lparr>std := Some (std_entries files Map.empty)\<rparr>)"
    by (simp add: Writer_isStdLib_first [OF assms(1,2)] std_entries_plain [OF assms(3)])
  show "Writer_isStdLib e' q (w\<lparr>std := Some (std_entries files Map.empty)\<rparr>) =
           (Ok ((takeWhile (\<lambda>c. c \<noteq> CHR ''/'') q, True) \<in> set files
                 \<and> takeWhile (\<lambda>c. c \<noteq> CHR ''/'') q \<noteq> ''cmd''
                 \<and> takeWhile (\<lambda>c. c \<noteq> CHR ''/'') q \<noteq> ''internal''),
            w\<lparr>std := Some (std_entries files Map.empty)\<rparr>)"
    by (simp add: Writer_isStdLib_cached std_entries_plain [OF assms(3)])
  show "std (snd (run e' pkg g (w\<lparr>std := Some (std_entries files Map.empty)\<rparr>)))
           = Some (std_entries files Map.empty)"
    by (rule run_std_const) simp
qed

theorem isStdLib_first_segment_witness:
  "std w_global = None
   \<and> goroot_src env0 = Inr [(''cmd'', True), (''fmt'', True), (''go.mod'', False),
                             (''internal'', True), (''net'', True)]
   \<and> fst (Writer_isStdLib env0 ''net/http'' w_global) = Ok True
   \<and> fst (Writer_isStdLib env0 ''cmd/go'' w_global) = Ok False"
proof -
  let ?files = "[(''cmd'', True), (''fmt'', True), (''go.mod'', False),
                 (''internal'', True), (''net'', True)]"
  have h1: "std w_global = None" by (simp add: w_global_def)
  have h2: "goroot_src env0 = Inr ?files" by (simp add: env0_def)
  have h3: "\<forall>(f, d) \<in> set ?files. f \<noteq> [] \<and> CHR ''/'' \<notin> set f" by simp
  note t = isStdLib_first_segment [OF h1 h2 h3, THEN conjunct1]
  have "fst (Writer_isStdLib env0 ''net/http'' w_global) = Ok True"
    by (subst t) simp
  moreover have "fst (Writer_isStdLib env0 ''cmd/go'' w_global) = Ok False"
    by (subst t) simp
  ultimately show ?thesis
    using h1 h2 by simp
qed

end
